theory Spec2Isabelle
  imports Complex_Main
begin

chapter \<open>The model\<close>

section \<open>JavaScript values used by the bridge\<close>

text \<open>
  Strings are lists of code units. The model covers code units below 256 (the Latin-1
  range), one \<^typ>\<open>char\<close> each, so \<open>length\<close> is JavaScript's \<open>.length\<close>.
  \<open>null\<close> and \<open>undefined\<close> are \<open>None\<close>. Numbers that the code only reads as identifiers
  or as integer amounts (kopecks, thousandths) are \<^typ>\<open>nat\<close> or \<^typ>\<open>int\<close>; decimal
  amounts are \<^typ>\<open>real\<close>, the exact value of the double the code computes.
\<close>

definition isSpace :: "char \<Rightarrow> bool" where
  \<comment> \<open>the class \<open>\s\<close> of a regular expression, and what \<open>trim()\<close> removes\<close>
  "isSpace c \<longleftrightarrow>
     c \<in> set [CHR 0x09, CHR 0x0A, CHR 0x0B, CHR 0x0C, CHR 0x0D, CHR 0x20, CHR 0xA0]"

definition isWord :: "char \<Rightarrow> bool" where
  \<comment> \<open>the class \<open>\w\<close>: \<open>[A-Za-z0-9_]\<close>\<close>
  "isWord c \<longleftrightarrow>
     (let n = (of_char c :: nat)
      in (48 \<le> n \<and> n \<le> 57) \<or> (65 \<le> n \<and> n \<le> 90) \<or> n = 95 \<or> (97 \<le> n \<and> n \<le> 122))"

definition lowerChar :: "char \<Rightarrow> char" where
  \<comment> \<open>\<open>A-Z\<close> and the Latin-1 capitals \<open>0xC0-0xDE\<close> (without \<open>0xD7\<close>) move up by 32\<close>
  "lowerChar c =
     (let n = (of_char c :: nat)
      in if (65 \<le> n \<and> n \<le> 90) \<or> (192 \<le> n \<and> n \<le> 214) \<or> (216 \<le> n \<and> n \<le> 222)
         then char_of (n + 32) else c)"

definition toLowerCase :: "string \<Rightarrow> string" where
  "toLowerCase s = map lowerChar s"

definition trim :: "string \<Rightarrow> string" where
  "trim s = rev (dropWhile isSpace (rev (dropWhile isSpace s)))"

definition truthy :: "string option \<Rightarrow> bool" where
  \<comment> \<open>a string-valued property in a condition: \<open>null\<close>, \<open>undefined\<close> and \<open>''\<close> are falsy\<close>
  "truthy v = (case v of None \<Rightarrow> False | Some s \<Rightarrow> s \<noteq> [])"

definition orElse :: "string option \<Rightarrow> string \<Rightarrow> string" where
  \<comment> \<open>\<open>v || d\<close> for a string-valued property \<open>v\<close>\<close>
  "orElse v d = (case v of None \<Rightarrow> d | Some s \<Rightarrow> if s = [] then d else s)"

definition digitChar :: "nat \<Rightarrow> char" where
  "digitChar d = char_of (48 + d)"

function showNat :: "nat \<Rightarrow> string" where
  \<comment> \<open>a non-negative integer inside a template literal\<close>
  "showNat n = (if n < 10 then [digitChar n] else showNat (n div 10) @ [digitChar (n mod 10)])"
  by pat_completeness auto
termination
  by (relation "measure (\<lambda>n. n)") auto

declare showNat.simps [simp del]

section \<open>Identity deriver (utils/mapper.js)\<close>

record crm_unit =
  unit_id :: nat
  unit_name :: "string option"
  unit_sku :: "string option"
  unit_barcode :: "string option"
  unit_price :: "real option"

definition stripSpecial :: "string \<Rightarrow> string" where
  \<comment> \<open>\<open>.replace(/[^\w\s-]/g, '')\<close>\<close>
  "stripSpecial s = filter (\<lambda>c. isWord c \<or> isSpace c \<or> c = CHR ''-'') s"

definition isSep :: "char \<Rightarrow> bool" where
  \<comment> \<open>the class \<open>[\s_]\<close>\<close>
  "isSep c \<longleftrightarrow> isSpace c \<or> c = CHR ''_''"

function hyphenate :: "string \<Rightarrow> string" where
  \<comment> \<open>\<open>.replace(/[\s_]+/g, '-')\<close>: every maximal run of separators becomes one hyphen\<close>
  "hyphenate [] = []"
| "hyphenate (c # cs) =
     (if isSep c then CHR ''-'' # hyphenate (dropWhile isSep cs) else c # hyphenate cs)"
  by pat_completeness auto
termination
  by (relation "measure length") (auto simp: length_dropWhile_le less_Suc_eq_le)

definition trimHyphens :: "string \<Rightarrow> string" where
  \<comment> \<open>\<open>.replace(/^-+|-+$/g, '')\<close>\<close>
  "trimHyphens s =
     rev (dropWhile (\<lambda>c. c = CHR ''-'') (rev (dropWhile (\<lambda>c. c = CHR ''-'') s)))"

definition slugify :: "string \<Rightarrow> string" where
  "slugify str = trimHyphens (hyphenate (stripSpecial (toLowerCase str)))"

definition deriveCode :: "crm_unit \<Rightarrow> string" where
  "deriveCode unit =
     (if truthy (unit_sku unit) \<and> trim (the (unit_sku unit)) \<noteq> [] then trim (the (unit_sku unit))
      else if truthy (unit_barcode unit) \<and> trim (the (unit_barcode unit)) \<noteq> []
        then trim (the (unit_barcode unit))
      else take 150 (slugify (orElse (unit_name unit) (''product-'' @ showNat (unit_id unit)))))"

definition isSlugChar :: "char \<Rightarrow> bool" where
  \<comment> \<open>a lowercase ASCII letter, a digit or a hyphen\<close>
  "isSlugChar c \<longleftrightarrow>
     (let n = (of_char c :: nat)
      in (97 \<le> n \<and> n \<le> 122) \<or> (48 \<le> n \<and> n \<le> 57) \<or> c = CHR ''-'')"

definition blank :: "string option \<Rightarrow> bool" where
  \<comment> \<open>a property that is missing, or empty once trimmed\<close>
  "blank v = (case v of None \<Rightarrow> True | Some s \<Rightarrow> trim s = [])"

definition longName :: string where
  \<comment> \<open>151 characters: 149 letters, a space, a letter\<close>
  "longName = replicate 149 (CHR ''a'') @ '' b''"

definition longNameUnit :: crm_unit where
  "longNameUnit =
     \<lparr>unit_id = 7, unit_name = Some longName, unit_sku = None, unit_barcode = Some [],
      unit_price = None\<rparr>"

section \<open>Catalog mapper (utils/mapper.js)\<close>

text \<open>
  A payload is the object literal the mapper builds, as the list of its keys and values
  in the order they are set. \<open>process.env\<close> is a record of the variables the code reads;
  a numeric variable is the number its text stands for, \<open>None\<close> when it is unset or empty.

  The price of a unit is a double, and \<open>unit.price * 100\<close> is the product the runtime
  computes for doubles, which is rounded and so is not always the exact product. The
  model takes that product as a parameter, \<open>mul100\<close>: what is proved of the mapper and
  of the reconciler holds for every such function, the one of the runtime among them.
\<close>

datatype json = JStr string | JNum int | JBool bool | JArr "json list"

type_synonym good_payload = "(string \<times> json) list"

record config =
  CHECKBOX_TAX_CODES :: "string option"
  CHECKBOX_WEBHOOK_SECRET :: "string option"
  KEYCRM_SOURCE_ID :: nat
  KEYCRM_PAYMENT_METHOD_ID :: "nat option"
  KEYCRM_ORDER_STATUS_ID :: "nat option"
  KEYCRM_BUYER_ID :: "nat option"
  KEYCRM_BUYER_EMAIL :: "string option"

definition mathRound :: "real \<Rightarrow> int" where
  \<comment> \<open>\<open>Math.round\<close>: the nearest integer, a tie going up\<close>
  "mathRound x = \<lfloor>x + 1 / 2\<rfloor>"

definition expectedPrice :: "(real \<Rightarrow> real) \<Rightarrow> crm_unit \<Rightarrow> int" where
  \<comment> \<open>\<open>Math.round((unit.price || 0) * 100)\<close>\<close>
  "expectedPrice mul100 unit = mathRound (mul100 (case unit_price unit of None \<Rightarrow> 0 | Some p \<Rightarrow> p))"

definition expectedName :: "crm_unit \<Rightarrow> string" where
  \<comment> \<open>\<open>unit.name || `Product ${unit.id}`\<close>\<close>
  "expectedName unit = orElse (unit_name unit) (''Product '' @ showNat (unit_id unit))"

primrec splitOn :: "char \<Rightarrow> string \<Rightarrow> string list" where
  \<comment> \<open>\<open>s.split(c)\<close> for a one-character separator\<close>
  "splitOn sep [] = [[]]"
| "splitOn sep (c # cs) =
     (if c = sep then [] # splitOn sep cs
      else (case splitOn sep cs of [] \<Rightarrow> [[c]] | w # ws \<Rightarrow> (c # w) # ws))"

definition taxCodes :: "config \<Rightarrow> string list" where
  "taxCodes env =
     (if truthy (CHECKBOX_TAX_CODES env)
      then filter (\<lambda>t. t \<noteq> []) (map trim (splitOn (CHR '','') (the (CHECKBOX_TAX_CODES env))))
      else [])"

definition toCheckboxGood :: "(real \<Rightarrow> real) \<Rightarrow> config \<Rightarrow> crm_unit \<Rightarrow> nat \<Rightarrow> bool \<Rightarrow> good_payload" where
  \<comment> \<open>the function has three parameters, \<open>unit\<close>, \<open>productId\<close> and \<open>isOffer\<close>; a fourth
      argument of a call is dropped\<close>
  "toCheckboxGood mul100 env unit productId isOffer =
     [(''name'', JStr (expectedName unit)),
      (''code'', JStr (deriveCode unit)),
      (''price'', JNum (expectedPrice mul100 unit)),
      (''type'', JStr ''PRODUCT''),
      (''is_weight'', JBool False),
      (''tax_codes'', JArr (map JStr (taxCodes env))),
      (''external_id'', JStr (if isOffer then ''keycrm_offer:'' @ showNat (unit_id unit)
                              else ''keycrm_product:'' @ showNat productId))]
     @ (if truthy (unit_barcode unit) \<and> trim (the (unit_barcode unit)) \<noteq> []
        then [(''barcode'', JStr (trim (the (unit_barcode unit))))] else [])"

record pos_good =
  good_id :: string
  good_code :: string
  good_name :: string
  good_price :: int
  good_group_id :: "string option"

definition needsUpdate :: "(real \<Rightarrow> real) \<Rightarrow> pos_good \<Rightarrow> crm_unit \<Rightarrow> bool" where
  "needsUpdate mul100 checkboxGood keycrmUnit \<longleftrightarrow>
     good_price checkboxGood \<noteq> expectedPrice mul100 keycrmUnit \<or>
     good_name checkboxGood \<noteq> expectedName keycrmUnit"


section \<open>Errors and calls to the remote services\<close>

text \<open>
  An exception is a value: what the code reads from it is its \<open>message\<close> and, when the
  remote service answered, the status and body of the answer (\<open>err.response\<close>).
  A call to a remote service takes the state of the world and returns its result, or
  the error it throws, with the new state. A session holds that state and the list of
  the calls made so far.
\<close>

record resp_data =
  data_message :: "string option"
  data_detail :: "string option"

record http_response =
  resp_status :: nat
  resp_data :: "resp_data option"

record js_error =
  err_message :: string
  err_response :: "http_response option"

definition responseStatus :: "js_error \<Rightarrow> nat option" where
  \<comment> \<open>\<open>err.response?.status\<close>\<close>
  "responseStatus err = map_option resp_status (err_response err)"

definition responseData :: "js_error \<Rightarrow> resp_data option" where
  \<comment> \<open>\<open>err.response?.data\<close>\<close>
  "responseData err = (case err_response err of None \<Rightarrow> None | Some r \<Rightarrow> resp_data r)"

definition dataMessage :: "js_error \<Rightarrow> string option" where
  \<comment> \<open>\<open>err.response?.data?.message\<close>\<close>
  "dataMessage err = (case responseData err of None \<Rightarrow> None | Some d \<Rightarrow> data_message d)"

record ('w, 'c) session =
  world :: 'w
  calls :: "'c list"

definition invoke :: "('w \<Rightarrow> 'r \<times> 'w) \<Rightarrow> 'c \<Rightarrow> ('w, 'c) session \<Rightarrow> 'r \<times> ('w, 'c) session" where
  \<comment> \<open>make the call \<open>c\<close>, whose effect on the world is \<open>f\<close>\<close>
  "invoke f c s = (case f (world s) of (r, w) \<Rightarrow> (r, \<lparr>world = w, calls = calls s @ [c]\<rparr>))"

section \<open>Sale events (routes/webhook.js)\<close>

record good_ref =
  g_code :: "string option"
  g_barcode :: "string option"
  g_name :: "string option"
  g_price :: "int option"

record good_item =
  item_good :: "good_ref option"
  item_good_id :: "string option"
  item_quantity :: "int option"
  item_total_sum :: "int option"

record receipt =
  receipt_id :: "string option"
  receipt_fiscal_code :: "string option"
  receipt_type :: "string option"
  receipt_order_id :: "string option"
  receipt_goods :: "good_item list option"
  receipt_total_sum :: "int option"
  receipt_created_at :: "string option"
  receipt_cashier_id :: "string option"  \<comment> \<open>\<open>receipt.shift?.cashier?.id\<close>\<close>

record webhook_body =
  body_callback :: "string option"
  body_notification_type :: "string option"
  body_receipt :: "receipt option"
  body_data :: "receipt option"
  body_self :: receipt  \<comment> \<open>the body read as a receipt; \<open>body.type\<close> is its type\<close>

record request =
  x_request_signature :: "string option"
  rawBody :: string
  body :: webhook_body

datatype response =
  InvalidSignature  \<comment> \<open>400 \<open>{ok: false, error: 'Invalid signature'}\<close>\<close>
| MissingReceipt  \<comment> \<open>400 \<open>{ok: false, error: 'Missing receipt in payload'}\<close>\<close>
| Ignored string  \<comment> \<open>200 \<open>{ok: true, ignored: true, reason}\<close>\<close>
| Accepted  \<comment> \<open>200 \<open>{ok: true}\<close>, then the receipt is processed\<close>

primrec statusCode :: "response \<Rightarrow> nat" where
  "statusCode InvalidSignature = 400"
| "statusCode MissingReceipt = 400"
| "statusCode (Ignored reason) = 200"
| "statusCode Accepted = 200"

definition hexValue :: "char \<Rightarrow> nat option" where
  "hexValue c =
     (let n = (of_char c :: nat)
      in if 48 \<le> n \<and> n \<le> 57 then Some (n - 48)
         else if 65 \<le> n \<and> n \<le> 70 then Some (n - 55)
         else if 97 \<le> n \<and> n \<le> 102 then Some (n - 87)
         else None)"

fun hexDecode :: "string \<Rightarrow> nat list" where
  \<comment> \<open>\<open>Buffer.from(s, 'hex')\<close>: pairs of digits, up to the first that is not one\<close>
  "hexDecode (a # b # rest) =
     (case (hexValue a, hexValue b) of
        (Some x, Some y) \<Rightarrow> (16 * x + y) # hexDecode rest
      | _ \<Rightarrow> [])"
| "hexDecode rest = []"

definition timingSafeEqual :: "nat list \<Rightarrow> nat list \<Rightarrow> bool option" where
  \<comment> \<open>\<open>None\<close>: the RangeError thrown for buffers of different lengths\<close>
  "timingSafeEqual a b = (if length a \<noteq> length b then None else Some (a = b))"

definition verifySignature :: "(string \<Rightarrow> string \<Rightarrow> string) \<Rightarrow> config \<Rightarrow> string \<Rightarrow> string \<Rightarrow> bool" where
  \<comment> \<open>\<open>hmacHex secret body\<close> is \<open>crypto.createHmac('sha256', secret).update(body).digest('hex')\<close>\<close>
  "verifySignature hmacHex env raw signature =
     (if \<not> truthy (CHECKBOX_WEBHOOK_SECRET env) then True
      else (let expected = hmacHex (the (CHECKBOX_WEBHOOK_SECRET env)) raw
            in case timingSafeEqual (hexDecode expected) (hexDecode signature) of
                 None \<Rightarrow> False
               | Some eq \<Rightarrow> eq))"

definition upperChars :: "char \<Rightarrow> string" where
  \<comment> \<open>\<open>a-z\<close> and the Latin-1 small letters \<open>0xE0-0xFE\<close> (without \<open>0xF7\<close>) move down by 32,
      \<open>0xDF\<close> becomes \<open>SS\<close>; \<open>0xB5\<close> and \<open>0xFF\<close>, whose capitals lie beyond Latin-1, stay\<close>
  "upperChars c =
     (let n = (of_char c :: nat)
      in if (97 \<le> n \<and> n \<le> 122) \<or> (224 \<le> n \<and> n \<le> 246) \<or> (248 \<le> n \<and> n \<le> 254)
         then [char_of (n - 32)]
         else if n = 223 then ''SS'' else [c])"

definition toUpperCase :: "string \<Rightarrow> string" where
  "toUpperCase s = concat (map upperChars s)"

primrec includesStr :: "string \<Rightarrow> string \<Rightarrow> bool" where
  \<comment> \<open>\<open>s.includes(sub)\<close>\<close>
  "includesStr [] sub \<longleftrightarrow> sub = []"
| "includesStr (c # cs) sub \<longleftrightarrow> take (length sub) (c # cs) = sub \<or> includesStr cs sub"

definition findReceipt :: "webhook_body \<Rightarrow> receipt option" where
  \<comment> \<open>the receipt under one of the envelope shapes the sender uses\<close>
  "findReceipt b =
     (let callbackType =
            (if truthy (body_callback b) then the (body_callback b)
             else if truthy (body_notification_type b) then the (body_notification_type b)
             else orElse (receipt_type (body_self b)) [])
      in case body_receipt b of
           Some r \<Rightarrow> Some r
         | None \<Rightarrow>
             if includesStr (toLowerCase callbackType) ''receipt''
             then (case body_data b of Some d \<Rightarrow> Some d | None \<Rightarrow> Some (body_self b))
             else None)"

definition allGoodsHaveNullId :: "receipt \<Rightarrow> bool" where
  "allGoodsHaveNullId r \<longleftrightarrow>
     (let goods = (case receipt_goods r of None \<Rightarrow> [] | Some gs \<Rightarrow> gs)
      in length goods > 0 \<and> list_all (\<lambda>g. item_good_id g = None) goods)"

definition saleFilter :: "string option \<Rightarrow> receipt \<Rightarrow> response" where
  \<comment> \<open>the guards of the handler on a receipt it found; \<open>ourCashierId\<close> is \<open>checkbox.getCashierId()\<close>\<close>
  "saleFilter ourCashierId r =
     (let receiptType = toUpperCase (orElse (receipt_type r) [])
      in if receiptType \<noteq> [] \<and> receiptType \<noteq> ''SELL''
         then Ignored (''receipt.type='' @ the (receipt_type r))
         else if receipt_order_id r \<noteq> None
         then Ignored (''fiscalization receipt for order '' @ the (receipt_order_id r))
         else if allGoodsHaveNullId r
         then Ignored ''all good_id null - fiscalization receipt''
         else if truthy ourCashierId \<and> truthy (receipt_cashier_id r) \<and>
                 receipt_cashier_id r \<noteq> ourCashierId
         then Ignored (''cashier mismatch: '' @ the (receipt_cashier_id r))
         else Accepted)"

definition webhookResponse ::
  "(string \<Rightarrow> string \<Rightarrow> string) \<Rightarrow> config \<Rightarrow> string option \<Rightarrow> request \<Rightarrow> response" where
  \<comment> \<open>what \<open>POST /webhook/checkbox\<close> answers\<close>
  "webhookResponse hmacHex env ourCashierId req =
     (if truthy (x_request_signature req) \<and>
         \<not> verifySignature hmacHex env (rawBody req) (the (x_request_signature req))
      then InvalidSignature
      else (case findReceipt (body req) of
              None \<Rightarrow> Ignored ''no receipt object found''
            | Some r \<Rightarrow> saleFilter ourCashierId r))"

definition webhookResponse_early ::
  "(string \<Rightarrow> string \<Rightarrow> string) \<Rightarrow> config \<Rightarrow> request \<Rightarrow> response" where
  \<comment> \<open>the handler before the guards against echoed receipts were added\<close>
  "webhookResponse_early hmacHex env req =
     (if truthy (x_request_signature req) \<and>
         \<not> verifySignature hmacHex env (rawBody req) (the (x_request_signature req))
      then InvalidSignature
      else if body_callback (body req) \<noteq> Some ''receipt_notification''
      then Ignored []
      else (case body_receipt (body req) of
              None \<Rightarrow> MissingReceipt
            | Some r \<Rightarrow>
                if receipt_type r \<noteq> Some ''SELL''
                then Ignored (''receipt.type='' @ (case receipt_type r of None \<Rightarrow> ''undefined'' | Some t \<Rightarrow> t))
                else Accepted))"

section \<open>Product resolution and order building (routes/webhook.js, utils/mapper.js)\<close>

record crm_product =
  product_name :: "string option"
  product_sku :: "string option"

record offer =
  offer_sku :: "string option"
  offer_barcode :: "string option"
  offer_product :: "crm_product option"

record product_line =
  line_sku :: "string option"
  line_name :: "string option"
  line_price :: real
  line_quantity :: real

record payment =
  payment_method_id :: nat
  payment_amount :: real
  payment_status :: string

record order_payload =
  source_id :: nat
  source_uuid :: "string option"
  buyer_email :: string
  products :: "product_line list"
  payments :: "payment list option"  \<comment> \<open>the key is left out when there is no payment\<close>
  ordered_at :: "string option"

record crm_order =
  order_id :: "nat option"

record order_update =
  update_status_id :: nat
  update_client_id :: nat

record 'w keycrm =
  getOfferBySku :: "string \<Rightarrow> 'w \<Rightarrow> offer option \<times> 'w"  \<comment> \<open>catches its errors and returns \<open>null\<close>\<close>
  getOfferByBarcode :: "string \<Rightarrow> 'w \<Rightarrow> (js_error + offer option) \<times> 'w"
  getProductByName :: "string \<Rightarrow> 'w \<Rightarrow> (js_error + crm_product option) \<times> 'w"
  createOrder :: "order_payload \<Rightarrow> 'w \<Rightarrow> (js_error + crm_order) \<times> 'w"
  updateOrder :: "nat \<Rightarrow> order_update \<Rightarrow> 'w \<Rightarrow> (js_error + unit) \<times> 'w"

datatype crm_call =
  GetOfferBySku string
| GetOfferByBarcode string
| GetProductByName string
| CreateOrder order_payload
| UpdateOrder nat order_update

definition numOr :: "int option \<Rightarrow> int \<Rightarrow> int" where
  \<comment> \<open>\<open>v || d\<close> for a number-valued property: \<open>null\<close>, \<open>undefined\<close> and \<open>0\<close> are falsy\<close>
  "numOr v d = (case v of None \<Rightarrow> d | Some n \<Rightarrow> if n = 0 then d else n)"

definition emptyGood :: good_ref where
  \<comment> \<open>the \<open>{}\<close> of \<open>goodItem.good || {}\<close>\<close>
  "emptyGood = \<lparr>g_code = None, g_barcode = None, g_name = None, g_price = None\<rparr>"

definition goodOf :: "good_item \<Rightarrow> good_ref" where
  "goodOf goodItem = (case item_good goodItem of None \<Rightarrow> emptyGood | Some g \<Rightarrow> g)"

definition toKeycrmProduct :: "good_item \<Rightarrow> offer option \<Rightarrow> product_line" where
  "toKeycrmProduct goodItem offer =
     (let good = goodOf goodItem;
          quantity = real_of_int (numOr (item_quantity goodItem) 1000) / 1000;
          price = real_of_int (numOr (g_price good) (numOr (item_total_sum goodItem) 0)) / 100
      in \<lparr>line_sku = (case offer of
                         None \<Rightarrow> g_code good
                       | Some off \<Rightarrow> if truthy (offer_sku off) then offer_sku off else g_code good),
            line_name = (if truthy (g_name good) then g_name good
                         else (case offer of
                                 None \<Rightarrow> Some ''Unknown''
                               | Some off \<Rightarrow>
                                   (case offer_product off of
                                      None \<Rightarrow> Some ''Unknown''
                                    | Some p \<Rightarrow> product_name p))),
            line_price = price,
            line_quantity = quantity\<rparr>)"

definition lookupBySku ::
  "'w keycrm \<Rightarrow> good_ref \<Rightarrow> ('w, crm_call) session \<Rightarrow> offer option \<times> ('w, crm_call) session" where
  \<comment> \<open>a) by SKU: the \<open>code\<close> of the good\<close>
  "lookupBySku api good s =
     (if truthy (g_code good)
      then invoke (getOfferBySku api (the (g_code good))) (GetOfferBySku (the (g_code good))) s
      else (None, s))"

definition lookupByBarcode ::
  "'w keycrm \<Rightarrow> good_ref \<Rightarrow> offer option \<Rightarrow> ('w, crm_call) session \<Rightarrow>
     (js_error + offer option) \<times> ('w, crm_call) session" where
  \<comment> \<open>b) by barcode, when there is no offer yet\<close>
  "lookupByBarcode api good offer s =
     (if offer = None \<and> truthy (g_barcode good)
      then invoke (getOfferByBarcode api (the (g_barcode good))) (GetOfferByBarcode (the (g_barcode good))) s
      else (Inr offer, s))"

definition lookupByName ::
  "'w keycrm \<Rightarrow> good_ref \<Rightarrow> offer option \<Rightarrow> ('w, crm_call) session \<Rightarrow>
     (js_error + offer option) \<times> ('w, crm_call) session" where
  \<comment> \<open>c) by the name of the product, when there is no offer yet\<close>
  "lookupByName api good offer s =
     (if offer = None \<and> truthy (g_name good)
      then (case invoke (getProductByName api (the (g_name good))) (GetProductByName (the (g_name good))) s of
              (Inl err, s') \<Rightarrow> (Inl err, s')
            | (Inr None, s') \<Rightarrow> (Inr None, s')
            | (Inr (Some p), s') \<Rightarrow>
                (Inr (Some \<lparr>offer_sku = product_sku p, offer_barcode = None, offer_product = Some p\<rparr>), s'))
      else (Inr offer, s))"

definition resolveOffer ::
  "'w keycrm \<Rightarrow> good_ref \<Rightarrow> ('w, crm_call) session \<Rightarrow> (js_error + offer option) \<times> ('w, crm_call) session" where
  \<comment> \<open>the lookups of one line, in their order; an error of a lookup ends them\<close>
  "resolveOffer api good s0 =
     (case lookupBySku api good s0 of
        (a, s1) \<Rightarrow>
          (case lookupByBarcode api good a s1 of
             (Inl err, s2) \<Rightarrow> (Inl err, s2)
           | (Inr b, s2) \<Rightarrow> lookupByName api good b s2))"

fun buildProducts ::
  "'w keycrm \<Rightarrow> good_item list \<Rightarrow> product_line list \<Rightarrow> ('w, crm_call) session \<Rightarrow>
     (js_error + product_line list) \<times> ('w, crm_call) session" where
  \<comment> \<open>the loop over \<open>receipt.goods\<close>; \<open>acc\<close> is the array \<open>products\<close>\<close>
  "buildProducts api [] acc s = (Inr acc, s)"
| "buildProducts api (goodItem # rest) acc s =
     (case resolveOffer api (goodOf goodItem) s of
        (Inl err, s1) \<Rightarrow> (Inl err, s1)
      | (Inr offer, s1) \<Rightarrow>
          if offer = None \<and> \<not> truthy (g_code (goodOf goodItem)) \<and> \<not> truthy (g_name (goodOf goodItem))
          then buildProducts api rest acc s1
          else buildProducts api rest (acc @ [toKeycrmProduct goodItem offer]) s1)"

definition replaceFirst :: "char \<Rightarrow> char \<Rightarrow> string \<Rightarrow> string" where
  \<comment> \<open>\<open>s.replace(a, b)\<close> for one-character strings: the first \<open>a\<close> only\<close>
  "replaceFirst a b s =
     (case dropWhile (\<lambda>c. c \<noteq> a) s of
        [] \<Rightarrow> s
      | _ # rest \<Rightarrow> takeWhile (\<lambda>c. c \<noteq> a) s @ b # rest)"

definition before :: "char \<Rightarrow> string \<Rightarrow> string" where
  \<comment> \<open>\<open>s.split(c)[0]\<close>\<close>
  "before c s = takeWhile (\<lambda>d. d \<noteq> c) s"

definition orderedAt :: "string \<Rightarrow> string" where
  "orderedAt createdAt =
     before (CHR ''Z'') (before (CHR ''+'') (before (CHR ''.'') (replaceFirst (CHR ''T'') (CHR '' '') createdAt)))"

definition orderPayload :: "config \<Rightarrow> receipt \<Rightarrow> product_line list \<Rightarrow> order_payload" where
  "orderPayload env r ps =
     (let paymentMethodId = (case KEYCRM_PAYMENT_METHOD_ID env of None \<Rightarrow> 2 | Some n \<Rightarrow> n);
          totalAmount = real_of_int (numOr (receipt_total_sum r) 0) / 100;
          pays = (if totalAmount > 0
                  then [\<lparr>payment_method_id = paymentMethodId, payment_amount = totalAmount,
                         payment_status = ''paid''\<rparr>]
                  else [])
      in \<lparr>source_id = KEYCRM_SOURCE_ID env,
            source_uuid = receipt_id r,
            buyer_email = orElse (KEYCRM_BUYER_EMAIL env) ''klumba.zakarpattia@gmail.com'',
            products = ps,
            payments = (if pays = [] then None else Some pays),
            ordered_at = (if truthy (receipt_created_at r)
                          then Some (orderedAt (the (receipt_created_at r))) else None)\<rparr>)"

definition isDuplicate :: "js_error \<Rightarrow> bool" where
  \<comment> \<open>\<open>status === 422 && msg && msg.toLowerCase().includes('source_uuid')\<close>\<close>
  "isDuplicate err \<longleftrightarrow>
     (let msg = (if truthy (dataMessage err) then the (dataMessage err) else err_message err)
      in responseStatus err = Some 422 \<and> msg \<noteq> [] \<and> includesStr (toLowerCase msg) ''source_uuid'')"

definition onOrderError :: "js_error \<Rightarrow> js_error + unit" where
  \<comment> \<open>the \<open>catch\<close> around the creation of the order: return, or throw the error again\<close>
  "onOrderError err = (if isDuplicate err then Inr () else Inl err)"

definition submitOrder ::
  "config \<Rightarrow> 'w keycrm \<Rightarrow> receipt \<Rightarrow> product_line list \<Rightarrow> ('w, crm_call) session \<Rightarrow>
     (js_error + unit) \<times> ('w, crm_call) session" where
  \<comment> \<open>the creation of the order and, when it has an id, the update that follows\<close>
  "submitOrder env api r ps s =
     (let statusId = (case KEYCRM_ORDER_STATUS_ID env of None \<Rightarrow> 12 | Some n \<Rightarrow> n);
          buyerId = (case KEYCRM_BUYER_ID env of None \<Rightarrow> 4 | Some n \<Rightarrow> n);
          payload = orderPayload env r ps
      in case invoke (createOrder api payload) (CreateOrder payload) s of
           (Inl err, s1) \<Rightarrow> (onOrderError err, s1)
         | (Inr order, s1) \<Rightarrow>
             (case order_id order of
                None \<Rightarrow> (Inr (), s1)
              | Some oid \<Rightarrow>
                  if oid = 0 then (Inr (), s1)
                  else (let upd = \<lparr>update_status_id = statusId, update_client_id = buyerId\<rparr>
                        in case invoke (updateOrder api oid upd) (UpdateOrder oid upd) s1 of
                             (Inl err, s2) \<Rightarrow> (onOrderError err, s2)
                           | (Inr u, s2) \<Rightarrow> (Inr (), s2))))"

definition processReceipt ::
  "config \<Rightarrow> 'w keycrm \<Rightarrow> receipt \<Rightarrow> ('w, crm_call) session \<Rightarrow>
     (js_error + unit) \<times> ('w, crm_call) session" where
  "processReceipt env api r s =
     (case buildProducts api (case receipt_goods r of None \<Rightarrow> [] | Some gs \<Rightarrow> gs) [] s of
        (Inl err, s1) \<Rightarrow> (Inl err, s1)
      | (Inr ps, s1) \<Rightarrow> if ps = [] then (Inr (), s1) else submitOrder env api r ps s1)"

definition webhookPost ::
  "(string \<Rightarrow> string \<Rightarrow> string) \<Rightarrow> config \<Rightarrow> string option \<Rightarrow> 'w keycrm \<Rightarrow> request \<Rightarrow>
     ('w, crm_call) session \<Rightarrow> response \<times> ('w, crm_call) session" where
  \<comment> \<open>the handler: the answer, and the session after the receipt is processed; an error
      of \<open>processReceipt\<close> is logged and goes no further\<close>
  "webhookPost hmacHex env ourCashierId api req s =
     (case webhookResponse hmacHex env ourCashierId req of
        Accepted \<Rightarrow> (Accepted, snd (processReceipt env api (the (findReceipt (body req))) s))
      | other \<Rightarrow> (other, s))"

section \<open>Group resolution and the reconciler (routes/sync.js, services/checkbox.js)\<close>

record pos_group =
  group_id :: string
  group_name :: string
  group_parent_id :: "string option"

record crm_category =
  category_id :: nat
  category_name :: string
  category_parent_id :: "nat option"

record 'w checkbox =
  getGoodByCode :: "string \<Rightarrow> 'w \<Rightarrow> (js_error + pos_good option) \<times> 'w"  \<comment> \<open>404 is \<open>null\<close>\<close>
  createGood :: "good_payload \<Rightarrow> 'w \<Rightarrow> (js_error + unit) \<times> 'w"
  updateGood :: "string \<Rightarrow> good_payload \<Rightarrow> 'w \<Rightarrow> (js_error + unit) \<times> 'w"
  createGroup :: "string \<Rightarrow> string option \<Rightarrow> 'w \<Rightarrow> (js_error + pos_group) \<times> 'w"
  getAllGroups :: "'w \<Rightarrow> (js_error + pos_group list) \<times> 'w"

datatype pos_call =
  GetGoodByCode string
| CreateGood good_payload
| UpdateGood string good_payload
| CreateGroup string "string option"
| GetAllGroups

primrec sentPayload :: "pos_call \<Rightarrow> good_payload option" where
  \<comment> \<open>the good a call writes to the catalog\<close>
  "sentPayload (GetGoodByCode code) = None"
| "sentPayload (CreateGood p) = Some p"
| "sentPayload (UpdateGood uuid p) = Some p"
| "sentPayload (CreateGroup name parent) = None"
| "sentPayload GetAllGroups = None"

primrec isCreateGroup :: "pos_call \<Rightarrow> bool" where
  "isCreateGroup (GetGoodByCode code) = False"
| "isCreateGroup (CreateGood p) = False"
| "isCreateGroup (UpdateGood uuid p) = False"
| "isCreateGroup (CreateGroup name parent) = True"
| "isCreateGroup GetAllGroups = False"

subsection \<open>The group cache of the checkbox service\<close>

record 'w cache_state =
  groupCache :: "(string \<rightharpoonup> string) option"  \<comment> \<open>\<open>null\<close> until the first lookup of a run\<close>
  cache_pos :: "('w, pos_call) session"

definition cacheKey :: "string \<Rightarrow> string option \<Rightarrow> string" where
  \<comment> \<open>\<open>`${name}::${parentId || ''}`\<close>\<close>
  "cacheKey name parentId = name @ ''::'' @ orElse parentId []"

definition loadGroupCache :: "pos_group list \<Rightarrow> (string \<rightharpoonup> string)" where
  "loadGroupCache groups =
     fold (\<lambda>g cache. cache(cacheKey (group_name g) (group_parent_id g) \<mapsto> group_id g)) groups Map.empty"

definition loadedCache ::
  "'w checkbox \<Rightarrow> 'w cache_state \<Rightarrow> (js_error + (string \<rightharpoonup> string)) \<times> 'w cache_state" where
  \<comment> \<open>\<open>if (!groupCache) { ... }\<close>: the cache, filled from the listing of the groups when it is \<open>null\<close>\<close>
  "loadedCache api st =
     (case groupCache st of
        Some cache \<Rightarrow> (Inr cache, st)
      | None \<Rightarrow>
          (case invoke (getAllGroups api) GetAllGroups (cache_pos st) of
             (Inl err, p) \<Rightarrow> (Inl err, st\<lparr>cache_pos := p\<rparr>)
           | (Inr groups, p) \<Rightarrow>
               (Inr (loadGroupCache groups),
                st\<lparr>groupCache := Some (loadGroupCache groups), cache_pos := p\<rparr>)))"

definition getOrCreateGroup ::
  "'w checkbox \<Rightarrow> string \<Rightarrow> string option \<Rightarrow> 'w cache_state \<Rightarrow> (js_error + string) \<times> 'w cache_state" where
  "getOrCreateGroup api name parentId st =
     (case loadedCache api st of
        (Inl err, st1) \<Rightarrow> (Inl err, st1)
      | (Inr cache, st1) \<Rightarrow>
          (let key = cacheKey name parentId
           in if truthy (cache key) then (Inr (the (cache key)), st1)
              else (case invoke (createGroup api name parentId) (CreateGroup name parentId) (cache_pos st1) of
                      (Inl err, p) \<Rightarrow> (Inl err, st1\<lparr>cache_pos := p\<rparr>)
                    | (Inr newGroup, p) \<Rightarrow>
                        (Inr (group_id newGroup),
                         st1\<lparr>groupCache := Some (cache(key \<mapsto> group_id newGroup)), cache_pos := p\<rparr>))))"

definition clearGroupCache :: "'w cache_state \<Rightarrow> 'w cache_state" where
  "clearGroupCache st = st\<lparr>groupCache := None\<rparr>"

subsection \<open>The reconciler with the group map\<close>

record sync_error =
  error_id :: "nat option"
  error_code :: "string option"
  error_reason :: string
  error_detail :: "resp_data option"

record sync_summary =
  created :: nat
  updated :: nat
  skipped :: nat
  errors :: "sync_error list"
  created_names :: "string list"

record 'w sync_state =
  summary :: sync_summary
  groupMap :: "string \<rightharpoonup> pos_group"
  pos :: "('w, pos_call) session"

record sync_item =
  unit :: crm_unit
  productId :: nat
  isOffer :: bool
  categoryId :: "nat option"

definition mapKey :: "string \<Rightarrow> string \<Rightarrow> string" where
  \<comment> \<open>\<open>`${name.toLowerCase().trim()}::${parentId}`\<close>\<close>
  "mapKey name parentId = trim (toLowerCase name) @ ''::'' @ parentId"

definition buildGroupMap :: "pos_group list \<Rightarrow> (string \<rightharpoonup> pos_group)" where
  "buildGroupMap groups =
     fold (\<lambda>g m. m(mapKey (group_name g) (orElse (group_parent_id g) []) \<mapsto> g)) groups Map.empty"

definition ensureGroup ::
  "'w checkbox \<Rightarrow> string \<Rightarrow> string \<Rightarrow> string option \<Rightarrow> 'w sync_state \<Rightarrow> (js_error + pos_group) \<times> 'w sync_state" where
  \<comment> \<open>\<open>groupMap.get(key)\<close> and, on a miss, \<open>createGroup\<close> followed by \<open>groupMap.set(key, group)\<close>\<close>
  "ensureGroup api key name parent st =
     (case groupMap st key of
        Some g \<Rightarrow> (Inr g, st)
      | None \<Rightarrow>
          (case invoke (createGroup api name parent) (CreateGroup name parent) (pos st) of
             (Inl err, p) \<Rightarrow> (Inl err, st\<lparr>pos := p\<rparr>)
           | (Inr g, p) \<Rightarrow> (Inr g, st\<lparr>groupMap := (groupMap st)(key \<mapsto> g), pos := p\<rparr>)))"

definition falsyId :: "nat option \<Rightarrow> bool" where
  \<comment> \<open>\<open>!id\<close> for a numeric identifier\<close>
  "falsyId v \<longleftrightarrow> v = None \<or> v = Some 0"

definition resolveParent ::
  "'w checkbox \<Rightarrow> (nat \<rightharpoonup> crm_category) \<Rightarrow> crm_category \<Rightarrow> 'w sync_state \<Rightarrow>
     (js_error + string) \<times> 'w sync_state" where
  \<comment> \<open>\<open>parentGroupId\<close>: \<open>''\<close>, or the id of the top-level group of the parent category\<close>
  "resolveParent api keycrmCats cat st =
     (if falsyId (category_parent_id cat) then (Inr [], st)
      else case keycrmCats (the (category_parent_id cat)) of
        None \<Rightarrow> (Inr [], st)
      | Some parentCat \<Rightarrow>
          (case ensureGroup api (mapKey (category_name parentCat) []) (category_name parentCat) None st of
             (Inl err, st') \<Rightarrow> (Inl err, st')
           | (Inr parentGroup, st') \<Rightarrow> (Inr (group_id parentGroup), st')))"

definition resolveGroupId ::
  "'w checkbox \<Rightarrow> nat option \<Rightarrow> (nat \<rightharpoonup> crm_category) \<Rightarrow> 'w sync_state \<Rightarrow>
     (js_error + string option) \<times> 'w sync_state" where
  "resolveGroupId api catId keycrmCats st =
     (if falsyId catId then (Inr None, st)
      else case keycrmCats (the catId) of
        None \<Rightarrow> (Inr None, st)
      | Some cat \<Rightarrow>
          (case resolveParent api keycrmCats cat st of
             (Inl err, st1) \<Rightarrow> (Inl err, st1)
           | (Inr parentGroupId, st1) \<Rightarrow>
               (case ensureGroup api (mapKey (category_name cat) parentGroupId) (category_name cat)
                       (if parentGroupId = [] then None else Some parentGroupId) st1 of
                  (Inl err, st2) \<Rightarrow> (Inl err, st2)
                | (Inr g, st2) \<Rightarrow> (Inr (Some (group_id g)), st2))))"

definition quoted :: "string \<Rightarrow> string" where
  \<comment> \<open>a string between double quotes\<close>
  "quoted s = CHR 0x22 # s @ [CHR 0x22]"

definition pushError :: "sync_error \<Rightarrow> sync_summary \<Rightarrow> sync_summary" where
  "pushError e sm = sm\<lparr>errors := errors sm @ [e]\<rparr>"

definition createErrorMessage :: "js_error \<Rightarrow> string" where
  \<comment> \<open>\<open>detail?.message || detail?.detail || err.message || ''\<close>, the cause in the error entry\<close>
  "createErrorMessage err =
     (if truthy (dataMessage err) then the (dataMessage err)
      else if truthy (case responseData err of None \<Rightarrow> None | Some d \<Rightarrow> data_detail d)
        then the (data_detail (the (responseData err)))
      else err_message err)"

definition onCreateError :: "string \<Rightarrow> js_error \<Rightarrow> sync_summary \<Rightarrow> sync_summary" where
  \<comment> \<open>the \<open>catch\<close> around \<open>createGood\<close>: any 422 counts as already existing\<close>
  "onCreateError code err sm =
     (if responseStatus err = Some 422 then sm\<lparr>skipped := skipped sm + 1\<rparr>
      else pushError \<lparr>error_id = None, error_code = Some code,
                       error_reason = ''Failed to create '' @ quoted code @ '': '' @ createErrorMessage err,
                       error_detail = responseData err\<rparr> sm)"

definition onCreateError_early :: "string \<Rightarrow> js_error \<Rightarrow> sync_summary \<Rightarrow> sync_summary" where
  \<comment> \<open>the same \<open>catch\<close> in the revisions of the route without the 422 rule\<close>
  "onCreateError_early code err sm =
     pushError \<lparr>error_id = None, error_code = Some code,
                 error_reason = ''Failed to create '' @ quoted code @ '': '' @
                   (if truthy (dataMessage err) then the (dataMessage err) else err_message err),
                 error_detail = responseData err\<rparr> sm"

definition upsertGood ::
  "(real \<Rightarrow> real) \<Rightarrow> config \<Rightarrow> 'w checkbox \<Rightarrow> sync_item \<Rightarrow> string \<Rightarrow> pos_good option \<Rightarrow> string option \<Rightarrow> 'w sync_state \<Rightarrow> 'w sync_state" where
  \<comment> \<open>the end of a turn of the loop: create, update or skip; \<open>groupId\<close> is the fourth
      argument of the calls of \<open>toCheckboxGood\<close>, which takes three\<close>
  "upsertGood mul100 env api item code existing groupId st =
     (let u = unit item; sm = summary st;
          payload = toCheckboxGood mul100 env u (productId item) (isOffer item)
      in case existing of
           None \<Rightarrow>
             (case invoke (createGood api payload) (CreateGood payload) (pos st) of
                (Inr ok, p) \<Rightarrow>
                  st\<lparr>summary := sm\<lparr>created := created sm + 1,
                                        created_names := created_names sm @ [the (unit_name u)]\<rparr>,
                     pos := p\<rparr>
              | (Inl err, p) \<Rightarrow> st\<lparr>summary := onCreateError code err sm, pos := p\<rparr>)
         | Some ex \<Rightarrow>
             if needsUpdate mul100 ex u \<or> (truthy groupId \<and> good_group_id ex \<noteq> groupId)
             then (case invoke (updateGood api (good_id ex) payload) (UpdateGood (good_id ex) payload) (pos st) of
                     (Inr ok, p) \<Rightarrow> st\<lparr>summary := sm\<lparr>updated := updated sm + 1\<rparr>, pos := p\<rparr>
                   | (Inl err, p) \<Rightarrow>
                       st\<lparr>summary := pushError \<lparr>error_id = None, error_code = Some code,
                              error_reason = ''Failed to update '' @ quoted code @ '': '' @
                                (if truthy (dataMessage err) then the (dataMessage err)
                                 else err_message err),
                              error_detail = None\<rparr> sm,
                          pos := p\<rparr>)
             else st\<lparr>summary := sm\<lparr>skipped := skipped sm + 1\<rparr>\<rparr>)"

definition syncUnit ::
  "(real \<Rightarrow> real) \<Rightarrow> config \<Rightarrow> 'w checkbox \<Rightarrow> (nat \<rightharpoonup> crm_category) \<Rightarrow> sync_item \<Rightarrow> 'w sync_state \<Rightarrow> 'w sync_state" where
  \<comment> \<open>one turn of the loop over \<open>units\<close>\<close>
  "syncUnit mul100 env api keycrmCats item st =
     (let u = unit item; sm = summary st
      in if \<not> truthy (unit_name u)
         then st\<lparr>summary := pushError \<lparr>error_id = Some (unit_id u), error_code = None,
                                          error_reason = ''Missing name, skipped'',
                                          error_detail = None\<rparr> sm\<rparr>
         else (let code = deriveCode u
               in if code = [] \<or> trim code = []
                  then st\<lparr>summary := (pushError \<lparr>error_id = Some (unit_id u), error_code = None,
                                     error_reason = ''Empty code (no SKU/barcode/name), skipped'',
                                     error_detail = None\<rparr> sm)\<lparr>skipped := skipped sm + 1\<rparr>\<rparr>
                  else (case invoke (getGoodByCode api code) (GetGoodByCode code) (pos st) of
                          (Inl err, p1) \<Rightarrow>
                            st\<lparr>summary := pushError \<lparr>error_id = None, error_code = Some code,
                                   error_reason = ''Error checking code '' @ quoted code @ '': '' @ err_message err,
                                   error_detail = None\<rparr> sm,
                               pos := p1\<rparr>
                        | (Inr existing, p1) \<Rightarrow>
                            (let (resolved, st2) = resolveGroupId api (categoryId item) keycrmCats (st\<lparr>pos := p1\<rparr>);
                                 groupId = (case resolved of Inl err \<Rightarrow> None | Inr g \<Rightarrow> g)
                             in upsertGood mul100 env api item code existing groupId st2))))"

definition emptySummary :: sync_summary where
  "emptySummary = \<lparr>created = 0, updated = 0, skipped = 0, errors = [], created_names = []\<rparr>"

definition reconcile ::
  "(real \<Rightarrow> real) \<Rightarrow> config \<Rightarrow> 'w checkbox \<Rightarrow> (nat \<rightharpoonup> crm_category) \<Rightarrow> pos_group list \<Rightarrow> sync_item list \<Rightarrow> 'w \<Rightarrow> 'w sync_state" where
  \<comment> \<open>a run over the units collected from the CRM, with the categories and groups fetched
      at its start\<close>
  "reconcile mul100 env api keycrmCats groups units w =
     fold (syncUnit mul100 env api keycrmCats) units
       \<lparr>summary = emptySummary, groupMap = buildGroupMap groups, pos = \<lparr>world = w, calls = []\<rparr>\<rparr>"

subsection \<open>The reconciler with the group cache\<close>

text \<open>
  The revision of the route that resolves groups through \<open>checkbox.getOrCreateGroup\<close>:
  a unit carries the category object of its product, the run starts with
  \<open>clearGroupCache\<close>, the \<open>catch\<close> around \<open>createGood\<close> records every failure, and
  \<open>needsUpdate\<close> is called with \<open>groupId\<close> as a third argument, which it does not take.
  The summary of this revision has no \<open>created_names\<close>; the field stays empty.
\<close>

record category_ref =
  ref_name :: "string option"
  ref_parent_name :: "string option"  \<comment> \<open>\<open>category.parent.name\<close>, when there is a parent\<close>

record early_item =
  early_unit :: crm_unit
  early_productId :: nat
  early_isOffer :: bool
  early_category :: "category_ref option"

record 'w early_state =
  early_summary :: sync_summary
  service :: "'w cache_state"  \<comment> \<open>the checkbox service: its group cache and its calls\<close>

definition resolveGroupId_early ::
  "'w checkbox \<Rightarrow> category_ref option \<Rightarrow> 'w cache_state \<Rightarrow> string option \<times> 'w cache_state" where
  \<comment> \<open>\<open>resolveGroupId(category)\<close>: an error of the service is caught and gives \<open>null\<close>\<close>
  "resolveGroupId_early api category cst =
     (case category of
        None \<Rightarrow> (None, cst)
      | Some cat \<Rightarrow>
          if \<not> truthy (ref_name cat) then (None, cst)
          else (case (if truthy (ref_parent_name cat)
                      then (case getOrCreateGroup api (the (ref_parent_name cat)) None cst of
                              (Inl err, c1) \<Rightarrow> (Inl err, c1)
                            | (Inr pid, c1) \<Rightarrow> (Inr (Some pid), c1))
                      else (Inr None, cst)) of
                  (Inl err, c1) \<Rightarrow> (None, c1)
                | (Inr parentId, c1) \<Rightarrow>
                    (case getOrCreateGroup api (the (ref_name cat)) parentId c1 of
                       (Inl err, c2) \<Rightarrow> (None, c2)
                     | (Inr gid, c2) \<Rightarrow> (Some gid, c2))))"

definition upsertGood_early ::
  "(real \<Rightarrow> real) \<Rightarrow> config \<Rightarrow> 'w checkbox \<Rightarrow> early_item \<Rightarrow> string \<Rightarrow> pos_good option \<Rightarrow> string option \<Rightarrow>
     'w early_state \<Rightarrow> 'w early_state" where
  \<comment> \<open>create, update or skip; \<open>groupId\<close> is passed to \<open>toCheckboxGood\<close> and to \<open>needsUpdate\<close>,
      and neither takes it\<close>
  "upsertGood_early mul100 env api item code existing groupId st =
     (let u = early_unit item; sm = early_summary st; cst = service st;
          payload = toCheckboxGood mul100 env u (early_productId item) (early_isOffer item)
      in case existing of
           None \<Rightarrow>
             (case invoke (createGood api payload) (CreateGood payload) (cache_pos cst) of
                (Inr ok, p) \<Rightarrow>
                  st\<lparr>early_summary := sm\<lparr>created := created sm + 1\<rparr>, service := cst\<lparr>cache_pos := p\<rparr>\<rparr>
              | (Inl err, p) \<Rightarrow>
                  st\<lparr>early_summary := onCreateError_early code err sm, service := cst\<lparr>cache_pos := p\<rparr>\<rparr>)
         | Some ex \<Rightarrow>
             if needsUpdate mul100 ex u
             then (case invoke (updateGood api (good_id ex) payload) (UpdateGood (good_id ex) payload)
                          (cache_pos cst) of
                     (Inr ok, p) \<Rightarrow>
                       st\<lparr>early_summary := sm\<lparr>updated := updated sm + 1\<rparr>, service := cst\<lparr>cache_pos := p\<rparr>\<rparr>
                   | (Inl err, p) \<Rightarrow>
                       st\<lparr>early_summary := pushError \<lparr>error_id = None, error_code = Some code,
                              error_reason = ''Failed to update '' @ quoted code @ '': '' @
                                (if truthy (dataMessage err) then the (dataMessage err)
                                 else err_message err),
                              error_detail = None\<rparr> sm,
                          service := cst\<lparr>cache_pos := p\<rparr>\<rparr>)
             else st\<lparr>early_summary := sm\<lparr>skipped := skipped sm + 1\<rparr>\<rparr>)"

definition syncUnit_early ::
  "(real \<Rightarrow> real) \<Rightarrow> config \<Rightarrow> 'w checkbox \<Rightarrow> early_item \<Rightarrow> 'w early_state \<Rightarrow> 'w early_state" where
  \<comment> \<open>one turn of the loop over \<open>units\<close> in this revision\<close>
  "syncUnit_early mul100 env api item st =
     (let u = early_unit item; sm = early_summary st; cst = service st
      in if \<not> truthy (unit_name u)
         then st\<lparr>early_summary := pushError \<lparr>error_id = Some (unit_id u), error_code = None,
                                                error_reason = ''Missing name, skipped'',
                                                error_detail = None\<rparr> sm\<rparr>
         else (let code = deriveCode u
               in if code = [] \<or> trim code = []
                  then st\<lparr>early_summary := (pushError \<lparr>error_id = Some (unit_id u), error_code = None,
                                     error_reason = ''Empty code (no SKU/barcode/name), skipped'',
                                     error_detail = None\<rparr> sm)\<lparr>skipped := skipped sm + 1\<rparr>\<rparr>
                  else (case invoke (getGoodByCode api code) (GetGoodByCode code) (cache_pos cst) of
                          (Inl err, p1) \<Rightarrow>
                            st\<lparr>early_summary := pushError \<lparr>error_id = None, error_code = Some code,
                                   error_reason = ''Error checking code '' @ quoted code @ '': '' @ err_message err,
                                   error_detail = None\<rparr> sm,
                               service := cst\<lparr>cache_pos := p1\<rparr>\<rparr>
                        | (Inr existing, p1) \<Rightarrow>
                            (case resolveGroupId_early api (early_category item) (cst\<lparr>cache_pos := p1\<rparr>) of
                               (groupId, cst2) \<Rightarrow>
                                 upsertGood_early mul100 env api item code existing groupId
                                   (st\<lparr>service := cst2\<rparr>)))))"

definition reconcile_early ::
  "(real \<Rightarrow> real) \<Rightarrow> config \<Rightarrow> 'w checkbox \<Rightarrow> early_item list \<Rightarrow> 'w cache_state \<Rightarrow> 'w early_state" where
  \<comment> \<open>a run of this revision: the cache is cleared, then the units are taken in turn\<close>
  "reconcile_early mul100 env api units cst =
     fold (syncUnit_early mul100 env api) units
       \<lparr>early_summary = emptySummary, service = clearGroupCache cst\<rparr>"

section \<open>The remote services as stores\<close>

text \<open>
  Modelled from the spec: the POS service and the CRM are outside the repository
  (sections 3 and 6 of the spec). The POS catalog keeps one good per \<open>code\<close>, gives each
  good an identifier when it is created, returns \<open>null\<close> for a code it does not have,
  refuses with 422 a second good with a code it has, and replaces the fields of a good
  on update. The CRM keeps the orders it was sent and refuses with 422 a second order
  with the \<open>source_uuid\<close> of an order it has. The reconciler and the ingestion pipeline
  above take any service as a parameter; these two are the services that behave as the
  spec describes.
\<close>

record stored_good =
  sg_code :: string
  sg_name :: string
  sg_price :: int
  sg_barcode :: "string option"
  sg_group_id :: "string option"

record pos_store =
  store_goods :: "stored_good list"
  store_groups :: "pos_group list"

definition payloadStr :: "good_payload \<Rightarrow> string \<Rightarrow> string option" where
  "payloadStr p k = (case map_of p k of Some (JStr v) \<Rightarrow> Some v | _ \<Rightarrow> None)"

definition payloadNum :: "good_payload \<Rightarrow> string \<Rightarrow> int option" where
  "payloadNum p k = (case map_of p k of Some (JNum v) \<Rightarrow> Some v | _ \<Rightarrow> None)"

definition httpError :: "nat \<Rightarrow> string \<Rightarrow> js_error" where
  \<comment> \<open>the error of a request the service answered with a failure status\<close>
  "httpError status msg =
     \<lparr>err_message = ''Request failed with status code '' @ showNat status,
      err_response = Some \<lparr>resp_status = status,
                            resp_data = Some \<lparr>data_message = Some msg, data_detail = None\<rparr>\<rparr>\<rparr>"

primrec findIndex :: "('a \<Rightarrow> bool) \<Rightarrow> 'a list \<Rightarrow> nat option" where
  "findIndex P [] = None"
| "findIndex P (x # xs) = (if P x then Some 0 else map_option Suc (findIndex P xs))"

definition goodAt :: "pos_store \<Rightarrow> nat \<Rightarrow> pos_good" where
  \<comment> \<open>the good with identifier \<open>i\<close>, as the service returns it\<close>
  "goodAt st i =
     (let g = store_goods st ! i
      in \<lparr>good_id = showNat i, good_code = sg_code g, good_name = sg_name g,
            good_price = sg_price g, good_group_id = sg_group_id g\<rparr>)"

definition storedFrom :: "good_payload \<Rightarrow> string option \<Rightarrow> stored_good option" where
  \<comment> \<open>the good a payload describes; a payload without name, code or price is invalid\<close>
  "storedFrom p grp =
     (case (payloadStr p ''code'', payloadStr p ''name'', payloadNum p ''price'') of
        (Some c, Some n, Some k) \<Rightarrow>
          Some \<lparr>sg_code = c, sg_name = n, sg_price = k, sg_barcode = payloadStr p ''barcode'',
                 sg_group_id = grp\<rparr>
      | _ \<Rightarrow> None)"

definition store_getGoodByCode :: "string \<Rightarrow> pos_store \<Rightarrow> (js_error + pos_good option) \<times> pos_store" where
  "store_getGoodByCode code st =
     (Inr (map_option (goodAt st) (findIndex (\<lambda>g. sg_code g = code) (store_goods st))), st)"

definition store_createGood :: "good_payload \<Rightarrow> pos_store \<Rightarrow> (js_error + unit) \<times> pos_store" where
  "store_createGood p st =
     (case storedFrom p None of
        None \<Rightarrow> (Inl (httpError 422 ''Validation error''), st)
      | Some g \<Rightarrow>
          if findIndex (\<lambda>h. sg_code h = sg_code g) (store_goods st) \<noteq> None
          then (Inl (httpError 422 ''Good with this code already exists''), st)
          else (Inr (), st\<lparr>store_goods := store_goods st @ [g]\<rparr>))"

definition store_updateGood :: "string \<Rightarrow> good_payload \<Rightarrow> pos_store \<Rightarrow> (js_error + unit) \<times> pos_store" where
  "store_updateGood uuid p st =
     (case findIndex (\<lambda>i. showNat i = uuid) [0..<length (store_goods st)] of
        None \<Rightarrow> (Inl (httpError 404 ''Not found''), st)
      | Some i \<Rightarrow>
          (case storedFrom p (sg_group_id (store_goods st ! i)) of
             None \<Rightarrow> (Inl (httpError 422 ''Validation error''), st)
           | Some g \<Rightarrow> (Inr (), st\<lparr>store_goods := (store_goods st)[i := g]\<rparr>)))"

definition store_createGroup :: "string \<Rightarrow> string option \<Rightarrow> pos_store \<Rightarrow> (js_error + pos_group) \<times> pos_store" where
  "store_createGroup name parent st =
     (let g = \<lparr>group_id = ''g'' @ showNat (length (store_groups st)), group_name = name,
                group_parent_id = parent\<rparr>
      in (Inr g, st\<lparr>store_groups := store_groups st @ [g]\<rparr>))"

definition store_getAllGroups :: "pos_store \<Rightarrow> (js_error + pos_group list) \<times> pos_store" where
  "store_getAllGroups st = (Inr (store_groups st), st)"

definition posStore :: "pos_store checkbox" where
  "posStore =
     \<lparr>getGoodByCode = store_getGoodByCode, createGood = store_createGood,
      updateGood = store_updateGood, createGroup = store_createGroup,
      getAllGroups = store_getAllGroups\<rparr>"









section \<open>Units used as examples\<close>

definition skuUnit :: crm_unit where
  "skuUnit = \<lparr>unit_id = 1, unit_name = Some ''Widget'', unit_sku = Some '' A1 '',
               unit_barcode = Some ''999'', unit_price = Some (1999 / 100)\<rparr>"

definition barcodeUnit :: crm_unit where
  "barcodeUnit = \<lparr>unit_id = 2, unit_name = Some ''Widget'', unit_sku = Some ''  '',
                   unit_barcode = Some '' 4820 '', unit_price = None\<rparr>"

definition nameUnit :: crm_unit where
  "nameUnit = \<lparr>unit_id = 3, unit_name = Some ''Blue Mug #2!'', unit_sku = Some [],
                unit_barcode = Some [], unit_price = None\<rparr>"

definition namelessUnit :: crm_unit where
  "namelessUnit = \<lparr>unit_id = 42, unit_name = None, unit_sku = None,
                    unit_barcode = None, unit_price = None\<rparr>"

section \<open>Receipts and requests used as examples\<close>

definition cashierMismatch :: "string option \<Rightarrow> receipt \<Rightarrow> bool" where
  \<comment> \<open>both cashier identities are known and they differ\<close>
  "cashierMismatch ourCashierId r \<longleftrightarrow>
     truthy ourCashierId \<and> truthy (receipt_cashier_id r) \<and> receipt_cashier_id r \<noteq> ourCashierId"

definition hasCatalogItem :: "receipt \<Rightarrow> bool" where
  \<comment> \<open>at least one line item has a \<open>good_id\<close>\<close>
  "hasCatalogItem r \<longleftrightarrow>
     list_ex (\<lambda>g. item_good_id g \<noteq> None) (case receipt_goods r of None \<Rightarrow> [] | Some gs \<Rightarrow> gs)"

definition signatureOk :: "(string \<Rightarrow> string \<Rightarrow> string) \<Rightarrow> config \<Rightarrow> request \<Rightarrow> bool" where
  \<comment> \<open>the request passes the signature check of the handler\<close>
  "signatureOk hmacHex env req \<longleftrightarrow>
     \<not> truthy (x_request_signature req) \<or>
     verifySignature hmacHex env (rawBody req) (the (x_request_signature req))"

definition catalogItem :: good_item where
  "catalogItem =
     \<lparr>item_good = Some \<lparr>g_code = Some ''A1'', g_barcode = None, g_name = None, g_price = None\<rparr>,
      item_good_id = Some ''good-1'', item_quantity = Some 2000, item_total_sum = None\<rparr>"

definition sellReceipt :: receipt where
  "sellReceipt =
     \<lparr>receipt_id = Some ''rcpt-1'', receipt_fiscal_code = None, receipt_type = Some ''SELL'',
      receipt_order_id = None, receipt_goods = Some [catalogItem], receipt_total_sum = Some 3998,
      receipt_created_at = None, receipt_cashier_id = Some ''cashier-1''\<rparr>"

definition echoReceipt :: receipt where
  \<comment> \<open>a sale that carries the order it was fiscalized for\<close>
  "echoReceipt = sellReceipt\<lparr>receipt_order_id := Some ''77''\<rparr>"

definition envelope :: "receipt \<Rightarrow> webhook_body" where
  "envelope r =
     \<lparr>body_callback = Some ''receipt_notification'', body_notification_type = None,
      body_receipt = Some r, body_data = None,
      body_self = \<lparr>receipt_id = None, receipt_fiscal_code = None, receipt_type = None,
                   receipt_order_id = None, receipt_goods = None, receipt_total_sum = None,
                   receipt_created_at = None, receipt_cashier_id = None\<rparr>\<rparr>"

definition unsignedRequest :: "receipt \<Rightarrow> request" where
  "unsignedRequest r = \<lparr>x_request_signature = None, rawBody = ''{}'', body = envelope r\<rparr>"

definition secretEnv :: config where
  "secretEnv =
     \<lparr>CHECKBOX_TAX_CODES = None, CHECKBOX_WEBHOOK_SECRET = Some ''s3cret'', KEYCRM_SOURCE_ID = 5,
      KEYCRM_PAYMENT_METHOD_ID = None, KEYCRM_ORDER_STATUS_ID = None, KEYCRM_BUYER_ID = None,
      KEYCRM_BUYER_EMAIL = None\<rparr>"

definition fixedHmac :: "string \<Rightarrow> string \<Rightarrow> string" where
  \<comment> \<open>a stand-in for the digest: the same 4 bytes for every key and body\<close>
  "fixedHmac key msg = ''00ff10a0''"



definition scenarioItem :: good_item where
  \<comment> \<open>\<open>{good: {code: "A1"}, quantity: 2000}\<close>\<close>
  "scenarioItem =
     \<lparr>item_good = Some \<lparr>g_code = Some ''A1'', g_barcode = None, g_name = None, g_price = None\<rparr>,
      item_good_id = None, item_quantity = Some 2000, item_total_sum = None\<rparr>"

definition scenarioReceipt :: receipt where
  \<comment> \<open>\<open>{type: "SELL", order_id: null, goods: [...], total_sum: 3998}\<close>, our cashier\<close>
  "scenarioReceipt =
     \<lparr>receipt_id = None, receipt_fiscal_code = None, receipt_type = Some ''SELL'',
      receipt_order_id = None, receipt_goods = Some [scenarioItem], receipt_total_sum = Some 3998,
      receipt_created_at = None, receipt_cashier_id = Some ''cashier-1''\<rparr>"








definition mapExtends :: "'w sync_state \<Rightarrow> 'w sync_state \<Rightarrow> bool" where
  \<comment> \<open>the second state has every entry of the group map of the first\<close>
  "mapExtends a b \<longleftrightarrow> (\<forall>k g. groupMap a k = Some g \<longrightarrow> groupMap b k = Some g)"

definition exampleCats :: "nat \<rightharpoonup> crm_category" where
  \<comment> \<open>the category Mugs under the category Kitchen\<close>
  "exampleCats =
     [1 \<mapsto> \<lparr>category_id = 1, category_name = ''Mugs'', category_parent_id = Some 2\<rparr>,
      2 \<mapsto> \<lparr>category_id = 2, category_name = ''Kitchen'', category_parent_id = None\<rparr>]"

definition emptyPos :: pos_store where
  "emptyPos = \<lparr>store_goods = [], store_groups = []\<rparr>"

definition freshCache :: "pos_store cache_state" where
  "freshCache = \<lparr>groupCache = None, cache_pos = \<lparr>world = emptyPos, calls = []\<rparr>\<rparr>"

definition freshSync :: "pos_store sync_state" where
  "freshSync =
     \<lparr>summary = emptySummary, groupMap = Map.empty, pos = \<lparr>world = emptyPos, calls = []\<rparr>\<rparr>"

definition payloadKeys :: "string list" where
  \<comment> \<open>the keys a good payload can have\<close>
  "payloadKeys = [''name'', ''code'', ''price'', ''type'', ''is_weight'', ''tax_codes'',
                  ''external_id'', ''barcode'']"

definition groupKeys :: "string list" where
  \<comment> \<open>the keys under which the POS service and the code name a group\<close>
  "groupKeys = [''group_id'', ''group'', ''parent_group_id'', ''parent_id'', ''groupId'']"

definition exactMul100 :: "real \<Rightarrow> real" where
  \<comment> \<open>the exact product, which is the product of doubles where that is exact, as for 12.5\<close>
  "exactMul100 x = x * 100"

definition widgetItem :: sync_item where
  \<comment> \<open>the unit \<open>{sku: "A1", name: "Widget", price: 12.5}\<close>, in the category Mugs\<close>
  "widgetItem =
     \<lparr>unit = \<lparr>unit_id = 1, unit_name = Some ''Widget'', unit_sku = Some ''A1'', unit_barcode = None,
               unit_price = Some (25 / 2)\<rparr>,
      productId = 7, isOffer = False, categoryId = Some 1\<rparr>"

definition failingPos :: "js_error \<Rightarrow> pos_store checkbox" where
  \<comment> \<open>the store, but every creation of a good fails with the given error\<close>
  "failingPos err = posStore\<lparr>createGood := (\<lambda>p st. (Inl err, st))\<rparr>"

definition widgetEarly :: early_item where
  \<comment> \<open>the same unit in the revision with the group cache, without category\<close>
  "widgetEarly =
     \<lparr>early_unit = unit widgetItem, early_productId = 7, early_isOffer = False, early_category = None\<rparr>"

definition freshEarly :: "pos_store early_state" where
  "freshEarly = \<lparr>early_summary = emptySummary, service = freshCache\<rparr>"

chapter \<open>Verification\<close>

section \<open>Trimming and slugs\<close>

lemma trim_Nil [simp]: "trim [] = []"
  by (simp add: trim_def)

lemma blank_iff: "blank v \<longleftrightarrow> \<not> (truthy v \<and> trim (the v) \<noteq> [])"
  by (cases v) (auto simp: blank_def truthy_def)

lemma strip_hd:
  assumes "rev (dropWhile P (rev (dropWhile P s))) \<noteq> []"
  shows "\<not> P (hd (rev (dropWhile P (rev (dropWhile P s)))))"
proof -
  let ?t = "dropWhile P s"
  let ?r = "dropWhile P (rev ?t)"
  have "rev ?t = takeWhile P (rev ?t) @ ?r" by simp
  then have b: "?t = rev ?r @ rev (takeWhile P (rev ?t))"
    by (metis rev_append rev_rev_ident)
  from assms have ne: "rev ?r \<noteq> []" .
  then have "?t \<noteq> []" using b by (metis append_is_Nil_conv)
  then have "\<not> P (hd ?t)" by (simp add: hd_dropWhile)
  moreover have "hd ?t = hd (rev ?r)" using b ne by (metis hd_append2)
  ultimately show ?thesis by simp
qed

lemma strip_last:
  assumes "rev (dropWhile P (rev (dropWhile P s))) \<noteq> []"
  shows "\<not> P (last (rev (dropWhile P (rev (dropWhile P s)))))"
proof -
  let ?r = "dropWhile P (rev (dropWhile P s))"
  from assms have "?r \<noteq> []" by simp
  then have "\<not> P (hd ?r)" by (simp add: hd_dropWhile)
  moreover have "last (rev ?r) = hd ?r" using \<open>?r \<noteq> []\<close> by (simp add: last_rev)
  ultimately show ?thesis by simp
qed

lemma set_strip: "set (rev (dropWhile P (rev (dropWhile P s)))) \<subseteq> set s"
proof -
  have "set (dropWhile P (rev (dropWhile P s))) \<subseteq> set (rev (dropWhile P s))"
    by (rule set_dropWhileD[THEN subsetI]) 
  also have "\<dots> \<subseteq> set s" by (auto dest: set_dropWhileD)
  finally show ?thesis by simp
qed

lemma set_hyphenate: "c \<in> set (hyphenate xs) \<Longrightarrow> c = CHR ''-'' \<or> (c \<in> set xs \<and> \<not> isSep c)"
proof (induction xs rule: hyphenate.induct)
  case 1
  then show ?case by simp
next
  case (2 d ds)
  show ?case
  proof (cases "isSep d")
    case True
    with 2 show ?thesis by (auto dest: set_dropWhileD)
  next
    case False
    with 2 show ?thesis by auto
  qed
qed

lemma of_char_lowerChar:
  "(of_char (lowerChar c) :: nat) =
     (if (65 \<le> (of_char c :: nat) \<and> (of_char c :: nat) \<le> 90) \<or>
         (192 \<le> (of_char c :: nat) \<and> (of_char c :: nat) \<le> 214) \<or>
         (216 \<le> (of_char c :: nat) \<and> (of_char c :: nat) \<le> 222)
      then of_char c + 32 else of_char c)"
proof -
  define n where "n = (of_char c :: nat)"
  have "n \<le> 222 \<Longrightarrow> (n + 32) mod 256 = n + 32" by simp
  then show ?thesis
    unfolding lowerChar_def Let_def n_def [symmetric]
    by (simp only: of_char_of split: if_splits) (simp add: n_def)
qed

lemma lowerChar_not_upper:
  "\<not> (65 \<le> (of_char (lowerChar c) :: nat) \<and> (of_char (lowerChar c) :: nat) \<le> 90)"
  unfolding of_char_lowerChar by (simp split: if_splits)

lemma underscore_code: "(of_char d :: nat) = 95 \<Longrightarrow> d = CHR ''_''"
proof -
  assume "(of_char d :: nat) = 95"
  then have "(of_char d :: nat) = of_char (CHR ''_'')" by simp
  then show ?thesis by (simp only: of_char_eq_iff)
qed

lemma kept_is_slug:
  assumes "\<not> (65 \<le> (of_char x :: nat) \<and> (of_char x :: nat) \<le> 90)"
    and "isWord x \<or> isSpace x \<or> x = CHR ''-''"
    and "\<not> isSep x"
  shows "isSlugChar x"
proof -
  from assms(3) have ns: "\<not> isSpace x" and nu: "x \<noteq> CHR ''_''" by (simp_all add: isSep_def)
  from assms(2) ns have "isWord x \<or> x = CHR ''-''" by simp
  then show ?thesis
  proof
    assume w: "isWord x"
    have "(of_char x :: nat) \<noteq> 95" using nu underscore_code by blast
    with w assms(1) show ?thesis by (auto simp: isWord_def isSlugChar_def Let_def)
  next
    assume "x = CHR ''-''"
    then show ?thesis by (simp add: isSlugChar_def)
  qed
qed

lemma lowerChar_kept_is_slug:
  assumes "isWord (lowerChar c) \<or> isSpace (lowerChar c) \<or> lowerChar c = CHR ''-''"
    and "\<not> isSep (lowerChar c)"
  shows "isSlugChar (lowerChar c)"
  using lowerChar_not_upper assms by (rule kept_is_slug)

lemma slugify_chars: "c \<in> set (slugify s) \<Longrightarrow> isSlugChar c"
proof -
  assume c: "c \<in> set (slugify s)"
  have "set (slugify s) \<subseteq> set (hyphenate (stripSpecial (toLowerCase s)))"
    unfolding slugify_def trimHyphens_def by (rule set_strip)
  with c have "c \<in> set (hyphenate (stripSpecial (toLowerCase s)))" ..
  then have "c = CHR ''-'' \<or> (c \<in> set (stripSpecial (toLowerCase s)) \<and> \<not> isSep c)"
    by (rule set_hyphenate)
  then show ?thesis
  proof
    assume "c = CHR ''-''"
    then show ?thesis by (simp add: isSlugChar_def)
  next
    assume a: "c \<in> set (stripSpecial (toLowerCase s)) \<and> \<not> isSep c"
    then have k: "isWord c \<or> isSpace c \<or> c = CHR ''-''" and m: "c \<in> set (map lowerChar s)"
      by (simp_all add: stripSpecial_def toLowerCase_def)
    from m obtain d where d: "c = lowerChar d" by (auto simp: image_iff)
    from a have n: "\<not> isSep c" ..
    show ?thesis using k n unfolding d by (rule lowerChar_kept_is_slug)
  qed
qed

lemma slugify_no_leading_hyphen: "slugify s \<noteq> [] \<Longrightarrow> hd (slugify s) \<noteq> CHR ''-''"
  unfolding slugify_def trimHyphens_def by (rule strip_hd)

lemma slugify_no_trailing_hyphen: "slugify s \<noteq> [] \<Longrightarrow> last (slugify s) \<noteq> CHR ''-''"
  unfolding slugify_def trimHyphens_def by (rule strip_last)


lemma trim_no_leading_space: "trim s \<noteq> [] \<Longrightarrow> \<not> isSpace (hd (trim s))"
  unfolding trim_def by (rule strip_hd)

lemma trim_no_trailing_space: "trim s \<noteq> [] \<Longrightarrow> \<not> isSpace (last (trim s))"
  unfolding trim_def by (rule strip_last)

lemma trim_is_infix:
  "\<exists>pre post. s = pre @ trim s @ post \<and> list_all isSpace pre \<and> list_all isSpace post"
proof -
  let ?t = "dropWhile isSpace s"
  let ?r = "dropWhile isSpace (rev ?t)"
  have a: "s = takeWhile isSpace s @ ?t" by simp
  have "rev ?t = takeWhile isSpace (rev ?t) @ ?r" by simp
  then have b: "?t = rev ?r @ rev (takeWhile isSpace (rev ?t))"
    by (metis rev_append rev_rev_ident)
  have c: "s = takeWhile isSpace s @ trim s @ rev (takeWhile isSpace (rev ?t))"
    using a b by (metis trim_def)
  have d: "list_all isSpace (takeWhile isSpace s)"
    by (auto simp: list_all_iff dest: set_takeWhileD)
  have e: "list_all isSpace (rev (takeWhile isSpace (rev ?t)))"
    by (auto simp: list_all_iff dest: set_takeWhileD)
  from c d e show ?thesis by blast
qed

lemma hyphenate_plain: "\<forall>c\<in>set xs. \<not> isSep c \<Longrightarrow> hyphenate (xs @ ys) = xs @ hyphenate ys"
  by (induction xs) auto

lemma trimHyphens_id: "s \<noteq> [] \<Longrightarrow> hd s \<noteq> CHR ''-'' \<Longrightarrow> last s \<noteq> CHR ''-'' \<Longrightarrow> trimHyphens s = s"
proof -
  assume ne: "s \<noteq> []" and h: "hd s \<noteq> CHR ''-''" and l: "last s \<noteq> CHR ''-''"
  have a: "dropWhile (\<lambda>c. c = CHR ''-'') s = s" using ne h by (cases s) auto
  have "rev s \<noteq> []" "hd (rev s) \<noteq> CHR ''-''" using ne l by (simp_all add: hd_rev)
  then have b: "dropWhile (\<lambda>c. c = CHR ''-'') (rev s) = rev s" by (cases "rev s") auto
  show ?thesis by (simp add: trimHyphens_def a b)
qed

lemma slugify_longName: "slugify longName = replicate 149 (CHR ''a'') @ ''-b''"
proof -
  let ?A = "replicate 149 (CHR ''a'')"
  have a: "toLowerCase longName = ?A @ '' b''"
    by (simp add: longName_def toLowerCase_def lowerChar_def)
  have b: "stripSpecial (?A @ '' b'') = ?A @ '' b''"
    by (simp add: stripSpecial_def isWord_def isSpace_def)
  have "\<forall>c\<in>set ?A. \<not> isSep c" by (simp add: isSep_def isSpace_def)
  then have "hyphenate (?A @ '' b'') = ?A @ hyphenate '' b''" by (rule hyphenate_plain)
  also have "hyphenate '' b'' = ''-b''" by (simp add: isSep_def isSpace_def)
  finally have c: "hyphenate (?A @ '' b'') = ?A @ ''-b''" .
  have "hd (?A @ ''-b'') = CHR ''a''" by (simp add: hd_append)
  then have d: "trimHyphens (?A @ ''-b'') = ?A @ ''-b''"
    by (intro trimHyphens_id) simp_all
  show ?thesis by (simp only: slugify_def a b c d)
qed


section \<open>The identity deriver\<close>

text \<open>
  C4. \<open>deriveCode\<close> returns the trimmed SKU when the SKU is not blank, whatever the
  barcode and the name are; otherwise the trimmed barcode when that is not blank;
  otherwise the slug of the name, or of \<open>product-<id>\<close> when the name is empty or
  missing, cut to its first 150 characters.
\<close>

theorem deriveCode_precedence:
  "(\<not> blank (unit_sku u) \<longrightarrow> deriveCode u = trim (the (unit_sku u))) \<and>
   (blank (unit_sku u) \<and> \<not> blank (unit_barcode u) \<longrightarrow>
      deriveCode u = trim (the (unit_barcode u))) \<and>
   (blank (unit_sku u) \<and> blank (unit_barcode u) \<longrightarrow>
      deriveCode u =
        take 150 (slugify (case unit_name u of
                             None \<Rightarrow> ''product-'' @ showNat (unit_id u)
                           | Some n \<Rightarrow> if n = [] then ''product-'' @ showNat (unit_id u) else n)))"
  by (cases "unit_name u") (simp_all add: deriveCode_def blank_iff orElse_def)

theorem deriveCode_precedence_witness:
  "deriveCode skuUnit = ''A1'' \<and> deriveCode barcodeUnit = ''4820'' \<and>
   deriveCode nameUnit = ''blue-mug-2'' \<and> deriveCode namelessUnit = ''product-42''"
proof -
  have t1: "trim '' A1 '' = ''A1''" and t2: "trim ''  '' = []" and t3: "trim '' 4820 '' = ''4820''"
    by (simp_all add: trim_def isSpace_def)
  have "\<not> blank (unit_sku skuUnit)" by (simp add: skuUnit_def blank_def t1)
  then have "deriveCode skuUnit = trim (the (unit_sku skuUnit))"
    using deriveCode_precedence [of skuUnit] by blast
  then have a: "deriveCode skuUnit = ''A1''" by (simp add: skuUnit_def t1)
  have "blank (unit_sku barcodeUnit) \<and> \<not> blank (unit_barcode barcodeUnit)"
    by (simp add: barcodeUnit_def blank_def t2 t3)
  then have "deriveCode barcodeUnit = trim (the (unit_barcode barcodeUnit))"
    using deriveCode_precedence [of barcodeUnit] by blast
  then have b: "deriveCode barcodeUnit = ''4820''" by (simp add: barcodeUnit_def t3)
  have s1: "slugify ''Blue Mug #2!'' = ''blue-mug-2''" by code_simp
  have "blank (unit_sku nameUnit) \<and> blank (unit_barcode nameUnit)"
    by (simp add: nameUnit_def blank_def)
  then have "deriveCode nameUnit =
      take 150 (slugify (case unit_name nameUnit of
                           None \<Rightarrow> ''product-'' @ showNat (unit_id nameUnit)
                         | Some n \<Rightarrow> if n = [] then ''product-'' @ showNat (unit_id nameUnit) else n))"
    using deriveCode_precedence [of nameUnit] by blast
  then have c: "deriveCode nameUnit = ''blue-mug-2''" by (simp add: nameUnit_def s1)
  have s2: "showNat 42 = ''42''" "slugify ''product-42'' = ''product-42''" by code_simp+
  have "blank (unit_sku namelessUnit) \<and> blank (unit_barcode namelessUnit)"
    by (simp add: namelessUnit_def blank_def)
  then have "deriveCode namelessUnit =
      take 150 (slugify (case unit_name namelessUnit of
                           None \<Rightarrow> ''product-'' @ showNat (unit_id namelessUnit)
                         | Some n \<Rightarrow> if n = [] then ''product-'' @ showNat (unit_id namelessUnit) else n))"
    using deriveCode_precedence [of namelessUnit] by blast
  then have d: "deriveCode namelessUnit = ''product-42''" by (simp add: namelessUnit_def s2)
  from a b c d show ?thesis by simp
qed

lemma deriveCode_slug_shape:
  assumes "blank (unit_sku u)" and "blank (unit_barcode u)"
  shows "list_all isSlugChar (deriveCode u)"
    and "length (deriveCode u) \<le> 150"
    and "deriveCode u \<noteq> [] \<Longrightarrow> hd (deriveCode u) \<noteq> CHR ''-''"
proof -
  define n where "n = orElse (unit_name u) (''product-'' @ showNat (unit_id u))"
  have d: "deriveCode u = take 150 (slugify n)"
    using assms by (auto simp: deriveCode_def blank_iff n_def)
  show "list_all isSlugChar (deriveCode u)"
    unfolding d list_all_iff using slugify_chars by (blast dest: in_set_takeD)
  show "length (deriveCode u) \<le> 150" unfolding d by simp
  show "hd (deriveCode u) \<noteq> CHR ''-''" if "deriveCode u \<noteq> []"
  proof -
    from that have ne: "slugify n \<noteq> []" unfolding d by auto
    then have "hd (take 150 (slugify n)) = hd (slugify n)" by (cases "slugify n") simp_all
    with slugify_no_leading_hyphen [OF ne] show ?thesis unfolding d by simp
  qed
qed

text \<open>
  C5. With SKU and barcode blank the code is the slug cut to 150 characters: it has
  only lowercase letters, digits and hyphens, at most 150 of them, and no hyphen in
  front (\<open>deriveCode_slug_shape\<close>). The cut comes after the hyphens at the ends are
  removed, so a name whose slug has a hyphen as its 150th character gives a
  code that ends in a hyphen: here 149 letters, a space and a letter.
\<close>

theorem deriveCode_cut_leaves_trailing_hyphen:
  "blank (unit_sku longNameUnit) \<and> blank (unit_barcode longNameUnit) \<and>
   deriveCode longNameUnit = replicate 149 (CHR ''a'') @ ''-'' \<and>
   last (deriveCode longNameUnit) = CHR ''-''"
proof -
  have b: "blank (unit_sku longNameUnit)" "blank (unit_barcode longNameUnit)"
    by (simp_all add: longNameUnit_def blank_def)
  have "deriveCode longNameUnit = take 150 (slugify longName)"
    by (simp add: deriveCode_def longNameUnit_def truthy_def orElse_def longName_def)
  then have d: "deriveCode longNameUnit = replicate 149 (CHR ''a'') @ ''-''"
    by (simp add: slugify_longName)
  from b d show ?thesis by simp
qed

section \<open>The sale event filter\<close>

lemma toUpperCase_RETURN: "toUpperCase ''RETURN'' = ''RETURN''"
  by code_simp

lemma toUpperCase_SELL: "toUpperCase ''SELL'' = ''SELL''"
  by code_simp

lemma saleFilter_not_error: "saleFilter our r \<noteq> InvalidSignature \<and> saleFilter our r \<noteq> MissingReceipt"
  by (simp add: saleFilter_def Let_def)

lemma hasCatalogItem_not_all_null: "hasCatalogItem r \<Longrightarrow> \<not> allGoodsHaveNullId r"
  by (auto simp: hasCatalogItem_def allGoodsHaveNullId_def list_ex_iff list_all_iff Let_def)

lemma saleFilter_ignores:
  assumes "receipt_order_id r \<noteq> None \<or> allGoodsHaveNullId r \<or> cashierMismatch our r \<or>
           receipt_type r = Some ''RETURN''"
  shows "\<exists>reason. saleFilter our r = Ignored reason"
  using assms
  by (auto simp: saleFilter_def Let_def cashierMismatch_def orElse_def toUpperCase_RETURN)

lemma saleFilter_accepts:
  assumes "receipt_type r = Some ''SELL''" and "receipt_order_id r = None"
    and "hasCatalogItem r" and "\<not> cashierMismatch our r"
  shows "saleFilter our r = Accepted"
  using assms hasCatalogItem_not_all_null [of r]
  by (auto simp: saleFilter_def Let_def cashierMismatch_def orElse_def toUpperCase_SELL)

text \<open>
  C3, as amended. For a request that passes the signature check and carries a receipt:
  the answer is "ignored", with status 200, when the receipt has an \<open>order_id\<close>, or
  has line items none of which has a \<open>good_id\<close>, or has a known cashier that differs
  from the known signed-in cashier, or is of type \<open>RETURN\<close>; and the answer is
  "accepted" for a \<open>SELL\<close> receipt without \<open>order_id\<close>, with a line item that has a
  \<open>good_id\<close>, and without cashier mismatch.
\<close>

theorem sale_filter_classification:
  assumes "signatureOk hmacHex env req" and "findReceipt (body req) = Some r"
  shows "(receipt_order_id r \<noteq> None \<or> allGoodsHaveNullId r \<or> cashierMismatch our r \<or>
          receipt_type r = Some ''RETURN'' \<longrightarrow>
            (\<exists>reason. webhookResponse hmacHex env our req = Ignored reason) \<and>
            statusCode (webhookResponse hmacHex env our req) = 200) \<and>
         (receipt_type r = Some ''SELL'' \<and> receipt_order_id r = None \<and> hasCatalogItem r \<and>
          \<not> cashierMismatch our r \<longrightarrow>
            webhookResponse hmacHex env our req = Accepted)"
proof -
  have w: "webhookResponse hmacHex env our req = saleFilter our r"
    using assms by (auto simp: webhookResponse_def signatureOk_def)
  show ?thesis
    unfolding w using saleFilter_ignores [of r our] saleFilter_accepts [of r our] by auto
qed

theorem sale_filter_classification_witness:
  "webhookResponse fixedHmac secretEnv (Some ''cashier-1'') (unsignedRequest sellReceipt) = Accepted \<and>
   (\<exists>reason. webhookResponse fixedHmac secretEnv (Some ''cashier-1'') (unsignedRequest echoReceipt)
      = Ignored reason)"
proof -
  have s: "signatureOk fixedHmac secretEnv (unsignedRequest r)" for r
    by (simp add: signatureOk_def unsignedRequest_def truthy_def)
  have f: "findReceipt (body (unsignedRequest r)) = Some r" for r
    by (simp add: findReceipt_def unsignedRequest_def envelope_def)
  have a: "receipt_type sellReceipt = Some ''SELL'' \<and> receipt_order_id sellReceipt = None \<and>
           hasCatalogItem sellReceipt \<and> \<not> cashierMismatch (Some ''cashier-1'') sellReceipt"
    by (simp add: sellReceipt_def hasCatalogItem_def catalogItem_def cashierMismatch_def)
  have b: "receipt_order_id echoReceipt \<noteq> None"
    by (simp add: echoReceipt_def)
  from sale_filter_classification [OF s f, of sellReceipt "Some ''cashier-1''"] a
  have 1: "webhookResponse fixedHmac secretEnv (Some ''cashier-1'') (unsignedRequest sellReceipt) = Accepted"
    by blast
  from sale_filter_classification [OF s f, of echoReceipt "Some ''cashier-1''"] b
  have 2: "\<exists>reason. webhookResponse fixedHmac secretEnv (Some ''cashier-1'') (unsignedRequest echoReceipt)
      = Ignored reason"
    by blast
  from 1 2 show ?thesis by simp
qed

text \<open>
  The claim as it is written lets a \<open>SELL\<close> receipt with a catalog item and no cashier
  mismatch be accepted whatever its \<open>order_id\<close> is; the guard on \<open>order_id\<close> ignores it.
\<close>

theorem sale_with_order_id_counterexample:
  "\<not> (receipt_type echoReceipt = Some ''SELL'' \<and> hasCatalogItem echoReceipt \<and>
      \<not> cashierMismatch (Some ''cashier-1'') echoReceipt \<longrightarrow>
      webhookResponse fixedHmac secretEnv (Some ''cashier-1'') (unsignedRequest echoReceipt) = Accepted)"
proof -
  have a: "receipt_type echoReceipt = Some ''SELL'' \<and> hasCatalogItem echoReceipt \<and>
           \<not> cashierMismatch (Some ''cashier-1'') echoReceipt"
    by (simp add: echoReceipt_def sellReceipt_def hasCatalogItem_def catalogItem_def cashierMismatch_def)
  have "webhookResponse fixedHmac secretEnv (Some ''cashier-1'') (unsignedRequest echoReceipt)
          = Ignored ''fiscalization receipt for order 77''"
    by (simp add: webhookResponse_def unsignedRequest_def truthy_def findReceipt_def envelope_def
        saleFilter_def echoReceipt_def sellReceipt_def orElse_def toUpperCase_SELL)
  with a show ?thesis by simp
qed

section \<open>The signature check\<close>

text \<open>
  C10. A request without the \<open>x-request-signature\<close> header is never answered with the
  400 of a failed signature, by the handler or by its earlier revision, whatever
  secret is configured; and without a configured secret \<open>verifySignature\<close> is true for
  every body and signature.
\<close>

theorem unsigned_request_never_rejected:
  "(x_request_signature req = None \<longrightarrow>
      webhookResponse hmacHex env our req \<noteq> InvalidSignature \<and>
      webhookResponse_early hmacHex env req \<noteq> InvalidSignature) \<and>
   (\<not> truthy (CHECKBOX_WEBHOOK_SECRET env) \<longrightarrow> verifySignature hmacHex env raw signature)"
proof -
  have a: "webhookResponse hmacHex env our req \<noteq> InvalidSignature" if "x_request_signature req = None"
    using that saleFilter_not_error [of our]
    by (auto simp: webhookResponse_def truthy_def split: option.splits)
  have b: "webhookResponse_early hmacHex env req \<noteq> InvalidSignature" if "x_request_signature req = None"
    using that by (auto simp: webhookResponse_early_def truthy_def split: option.splits)
  have c: "verifySignature hmacHex env raw signature" if "\<not> truthy (CHECKBOX_WEBHOOK_SECRET env)"
    using that by (simp add: verifySignature_def)
  from a b c show ?thesis by blast
qed

lemma signed_request_is_checked:
  "webhookResponse fixedHmac secretEnv our ((unsignedRequest r)\<lparr>x_request_signature := Some ''00ff10a1''\<rparr>)
     = InvalidSignature"
  by (simp add: webhookResponse_def unsignedRequest_def truthy_def verifySignature_def secretEnv_def
      fixedHmac_def timingSafeEqual_def hexValue_def)

theorem unsigned_request_never_rejected_witness:
  "webhookResponse fixedHmac secretEnv None (unsignedRequest sellReceipt) \<noteq> InvalidSignature \<and>
   webhookResponse_early fixedHmac secretEnv (unsignedRequest sellReceipt) \<noteq> InvalidSignature \<and>
   verifySignature fixedHmac (secretEnv\<lparr>CHECKBOX_WEBHOOK_SECRET := None\<rparr>) ''{}'' ''00''"
proof -
  have h: "x_request_signature (unsignedRequest sellReceipt) = None"
    by (simp add: unsignedRequest_def)
  have k: "\<not> truthy (CHECKBOX_WEBHOOK_SECRET (secretEnv\<lparr>CHECKBOX_WEBHOOK_SECRET := None\<rparr>))"
    by (simp add: truthy_def)
  from unsigned_request_never_rejected
         [of "unsignedRequest sellReceipt" fixedHmac secretEnv None "''{}''" "''00''"] h
  have 1: "webhookResponse fixedHmac secretEnv None (unsignedRequest sellReceipt) \<noteq> InvalidSignature \<and>
           webhookResponse_early fixedHmac secretEnv (unsignedRequest sellReceipt) \<noteq> InvalidSignature"
    by blast
  from unsigned_request_never_rejected
         [of "unsignedRequest sellReceipt" fixedHmac "secretEnv\<lparr>CHECKBOX_WEBHOOK_SECRET := None\<rparr>"
             None "''{}''" "''00''"] k
  have 2: "verifySignature fixedHmac (secretEnv\<lparr>CHECKBOX_WEBHOOK_SECRET := None\<rparr>) ''{}'' ''00''"
    by blast
  from 1 2 show ?thesis by simp
qed

section \<open>Order building\<close>

lemma calls_invoke [simp]: "calls (snd (invoke f c s)) = calls s @ [c]"
  by (simp add: invoke_def split: prod.splits)

lemma world_invoke [simp]: "world (snd (invoke f c s)) = snd (f (world s))"
  by (simp add: invoke_def split: prod.splits)

lemma fst_invoke [simp]: "fst (invoke f c s) = fst (f (world s))"
  by (simp add: invoke_def split: prod.splits)

lemma invoke_eq: "f (world s) = (r, w) \<Longrightarrow> invoke f c s = (r, \<lparr>world = w, calls = calls s @ [c]\<rparr>)"
  by (simp add: invoke_def)








lemma scenario_literal_is_ignored:
  "webhookResponse hmacHex env (Some ''cashier-1'') (unsignedRequest scenarioReceipt)
     = Ignored ''all good_id null - fiscalization receipt''"
  by (simp add: webhookResponse_def unsignedRequest_def truthy_def findReceipt_def envelope_def
      saleFilter_def scenarioReceipt_def scenarioItem_def orElse_def toUpperCase_SELL
      allGoodsHaveNullId_def)

section \<open>Duplicate receipts\<close>







lemma source_uuid_orderPayload [simp]: "source_uuid (orderPayload env r ps) = receipt_id r"
  by (simp add: orderPayload_def Let_def)















section \<open>Group resolution\<close>

lemma mapExtends_refl [simp]: "mapExtends a a"
  by (simp add: mapExtends_def)

lemma mapExtends_trans: "mapExtends a b \<Longrightarrow> mapExtends b c \<Longrightarrow> mapExtends a c"
  by (simp add: mapExtends_def)

lemma ensureGroup_hit: "groupMap st key = Some g \<Longrightarrow> ensureGroup api key name parent st = (Inr g, st)"
  by (simp add: ensureGroup_def)

lemma ensureGroup_result:
  assumes "ensureGroup api key name parent st = (Inr g, st')"
  shows "groupMap st' key = Some g" and "mapExtends st st'"
proof -
  show "groupMap st' key = Some g"
  proof (cases "groupMap st key")
    case None
    with assms show ?thesis
      by (auto simp: ensureGroup_def split: prod.splits sum.splits)
  next
    case (Some h)
    with assms show ?thesis by (simp add: ensureGroup_def)
  qed
  show "mapExtends st st'"
  proof (cases "groupMap st key")
    case None
    with assms show ?thesis
      by (auto simp: ensureGroup_def mapExtends_def split: prod.splits sum.splits)
  next
    case (Some h)
    with assms show ?thesis by (simp add: ensureGroup_def)
  qed
qed

lemma ensureGroup_stable:
  assumes "ensureGroup api key name parent st = (Inr g, st')" and "mapExtends st' st2"
  shows "ensureGroup api key name parent st2 = (Inr g, st2)"
proof -
  from ensureGroup_result(1) [OF assms(1)] assms(2) have "groupMap st2 key = Some g"
    by (simp add: mapExtends_def)
  then show ?thesis by (rule ensureGroup_hit)
qed

lemma resolveParent_result:
  assumes "resolveParent api cats cat st = (Inr pid, st1)"
  shows "mapExtends st st1"
    and "mapExtends st1 st2 \<Longrightarrow> resolveParent api cats cat st2 = (Inr pid, st2)"
proof -
  show "mapExtends st st1"
  proof (cases "falsyId (category_parent_id cat) \<or> cats (the (category_parent_id cat)) = None")
    case True
    with assms show ?thesis by (auto simp: resolveParent_def split: if_splits)
  next
    case False
    then obtain pc where pc: "\<not> falsyId (category_parent_id cat)" "cats (the (category_parent_id cat)) = Some pc"
      by auto
    obtain res sx where e: "ensureGroup api (mapKey (category_name pc) []) (category_name pc) None st = (res, sx)"
      by (cases "ensureGroup api (mapKey (category_name pc) []) (category_name pc) None st")
    with assms pc obtain g where "res = Inr g" "sx = st1"
      by (cases res) (simp_all add: resolveParent_def)
    with e ensureGroup_result(2) show ?thesis by blast
  qed
  show "resolveParent api cats cat st2 = (Inr pid, st2)" if ext: "mapExtends st1 st2"
  proof (cases "falsyId (category_parent_id cat) \<or> cats (the (category_parent_id cat)) = None")
    case True
    with assms show ?thesis by (auto simp: resolveParent_def split: if_splits)
  next
    case False
    then obtain pc where pc: "\<not> falsyId (category_parent_id cat)" "cats (the (category_parent_id cat)) = Some pc"
      by auto
    obtain res sx where e: "ensureGroup api (mapKey (category_name pc) []) (category_name pc) None st = (res, sx)"
      by (cases "ensureGroup api (mapKey (category_name pc) []) (category_name pc) None st")
    with assms pc obtain g where g: "res = Inr g" "sx = st1" "pid = group_id g"
      by (cases res) (simp_all add: resolveParent_def)
    from e g have "ensureGroup api (mapKey (category_name pc) []) (category_name pc) None st = (Inr g, st1)"
      by simp
    from ensureGroup_stable [OF this ext] pc g show ?thesis
      by (simp add: resolveParent_def)
  qed
qed

lemma resolveGroupId_again:
  assumes "resolveGroupId api catId cats st = (Inr r, st')"
  shows "resolveGroupId api catId cats st' = (Inr r, st')"
proof (cases "falsyId catId \<or> cats (the catId) = None")
  case True
  with assms show ?thesis by (auto simp: resolveGroupId_def split: if_splits)
next
  case False
  then obtain cat where cat: "\<not> falsyId catId" "cats (the catId) = Some cat" by auto
  obtain pr st1 where p: "resolveParent api cats cat st = (pr, st1)"
    by (cases "resolveParent api cats cat st")
  with assms cat obtain pid where pid: "pr = Inr pid"
    by (cases pr) (simp_all add: resolveGroupId_def)
  let ?key = "mapKey (category_name cat) pid"
  let ?par = "if pid = [] then None else Some pid"
  obtain er st2 where e: "ensureGroup api ?key (category_name cat) ?par st1 = (er, st2)"
    by (cases "ensureGroup api ?key (category_name cat) ?par st1")
  with assms cat p pid obtain g where g: "er = Inr g" "st2 = st'" "r = Some (group_id g)"
    by (cases er) (auto simp: resolveGroupId_def)
  from e g have e': "ensureGroup api ?key (category_name cat) ?par st1 = (Inr g, st')" by simp
  from p pid have p': "resolveParent api cats cat st = (Inr pid, st1)" by simp
  have "mapExtends st1 st'" using ensureGroup_result(2) [OF e'] .
  from resolveParent_result(2) [OF p' this]
  have 1: "resolveParent api cats cat st' = (Inr pid, st')" .
  have 2: "ensureGroup api ?key (category_name cat) ?par st' = (Inr g, st')"
    using ensureGroup_stable [OF e'] by simp
  from cat 1 2 g show ?thesis by (simp add: resolveGroupId_def)
qed

lemma loadedCache_result:
  assumes "loadedCache api st = (Inr cache, st1)"
  shows "groupCache st1 = Some cache"
  using assms
  by (cases "groupCache st") (auto simp: loadedCache_def split: prod.splits sum.splits)

lemma loadedCache_hit: "groupCache st = Some cache \<Longrightarrow> loadedCache api st = (Inr cache, st)"
  by (simp add: loadedCache_def)

lemma getOrCreateGroup_again:
  assumes "getOrCreateGroup api name parent st = (Inr gid, st')" and "gid \<noteq> []"
  shows "getOrCreateGroup api name parent st' = (Inr gid, st')"
    and "\<exists>cache. groupCache st' = Some cache \<and> cache (cacheKey name parent) = Some gid"
proof -
  obtain lr st1 where l: "loadedCache api st = (lr, st1)" by (cases "loadedCache api st")
  with assms(1) obtain cache where c: "lr = Inr cache"
    by (cases lr) (simp_all add: getOrCreateGroup_def)
  from l c have l': "loadedCache api st = (Inr cache, st1)" by simp
  have gc: "groupCache st1 = Some cache" using loadedCache_result [OF l'] .
  let ?key = "cacheKey name parent"
  have both: "getOrCreateGroup api name parent st' = (Inr gid, st') \<and>
        (\<exists>cache. groupCache st' = Some cache \<and> cache ?key = Some gid)"
  proof (cases "truthy (cache ?key)")
    case True
    with assms(1) l' have r1: "gid = the (cache ?key)" and r2: "st' = st1"
      by (simp_all add: getOrCreateGroup_def)
    from True r1 have ck: "cache ?key = Some gid" by (auto simp: truthy_def split: option.splits)
    have lh: "loadedCache api st' = (Inr cache, st')"
      using gc unfolding r2 by (rule loadedCache_hit)
    have 1: "getOrCreateGroup api name parent st' = (Inr gid, st')"
      using assms(2) by (simp add: getOrCreateGroup_def lh ck truthy_def)
    have 2: "\<exists>cache. groupCache st' = Some cache \<and> cache ?key = Some gid"
      using gc ck unfolding r2 by blast
    from 1 2 show ?thesis ..
  next
    case False
    obtain cr p where i: "invoke (createGroup api name parent) (CreateGroup name parent) (cache_pos st1) = (cr, p)"
      by (cases "invoke (createGroup api name parent) (CreateGroup name parent) (cache_pos st1)")
    with assms(1) l' False obtain g where g: "cr = Inr g"
      by (cases cr) (simp_all add: getOrCreateGroup_def)
    from assms(1) l' False i g have r1: "group_id g = gid"
      and r2: "st1\<lparr>groupCache := Some (cache(?key \<mapsto> gid)), cache_pos := p\<rparr> = st'"
      by (auto simp: getOrCreateGroup_def)
    from r2 have gc2: "groupCache st' = Some (cache(?key \<mapsto> gid))" by auto
    have lh: "loadedCache api st' = (Inr (cache(?key \<mapsto> gid)), st')"
      using gc2 by (rule loadedCache_hit)
    have 1: "getOrCreateGroup api name parent st' = (Inr gid, st')"
      using assms(2) by (simp add: getOrCreateGroup_def lh truthy_def)
    have 2: "\<exists>cache. groupCache st' = Some cache \<and> cache ?key = Some gid"
      using gc2 by simp
    from 1 2 show ?thesis ..
  qed
  from both show "getOrCreateGroup api name parent st' = (Inr gid, st')" ..
  from both show "\<exists>cache. groupCache st' = Some cache \<and> cache ?key = Some gid" ..
qed

lemma showNat_small: "showNat 0 = ''0''" "showNat 1 = ''1''" "showNat (Suc 0) = ''1''"
  by code_simp+

section \<open>The reconciler\<close>

lemma ensureGroup_summary [simp]: "summary (snd (ensureGroup api key name parent st)) = summary st"
  by (simp add: ensureGroup_def split: option.splits prod.splits sum.splits)

lemma resolveParent_summary [simp]: "summary (snd (resolveParent api cats cat st)) = summary st"
proof -
  have e: "summary sx = summary st" if "ensureGroup api key name parent st = (res, sx)" for key name parent res sx
    using ensureGroup_summary [of api key name parent st] that by simp
  show ?thesis
    by (auto simp: resolveParent_def e split: option.splits prod.splits sum.splits)
qed

lemma resolveGroupId_summary [simp]: "summary (snd (resolveGroupId api catId cats st)) = summary st"
proof -
  have p: "summary sx = summary st" if "resolveParent api cats cat st = (res, sx)" for cat res sx
    using resolveParent_summary [of api cats cat st] that by simp
  have e: "summary sy = summary sx" if "ensureGroup api key name parent sx = (res, sy)" for key name parent res sx sy
    using ensureGroup_summary [of api key name parent sx] that by simp
  show ?thesis
    by (auto simp: resolveGroupId_def split: option.splits prod.splits sum.splits dest!: p e)
qed

lemma ensureGroup_calls:
  "\<exists>cs. calls (pos (snd (ensureGroup api key name parent st))) = calls (pos st) @ cs \<and>
        list_all isCreateGroup cs"
proof (cases "groupMap st key")
  case None
  obtain r p where i: "invoke (createGroup api name parent) (CreateGroup name parent) (pos st) = (r, p)"
    by (cases "invoke (createGroup api name parent) (CreateGroup name parent) (pos st)")
  then have "calls p = calls (pos st) @ [CreateGroup name parent]"
    using calls_invoke [of "createGroup api name parent" "CreateGroup name parent" "pos st"] by simp
  with None i have "calls (pos (snd (ensureGroup api key name parent st)))
      = calls (pos st) @ [CreateGroup name parent]"
    by (cases r) (simp_all add: ensureGroup_def)
  then show ?thesis by simp
next
  case (Some g)
  then show ?thesis by (simp add: ensureGroup_def)
qed

lemma resolveParent_calls:
  "\<exists>cs. calls (pos (snd (resolveParent api cats cat st))) = calls (pos st) @ cs \<and>
        list_all isCreateGroup cs"
proof (cases "falsyId (category_parent_id cat) \<or> cats (the (category_parent_id cat)) = None")
  case True
  then show ?thesis by (auto simp: resolveParent_def)
next
  case False
  then obtain pc where pc: "\<not> falsyId (category_parent_id cat)" "cats (the (category_parent_id cat)) = Some pc"
    by auto
  let ?e = "ensureGroup api (mapKey (category_name pc) []) (category_name pc) None st"
  have "snd (resolveParent api cats cat st) = snd ?e"
    using pc by (simp add: resolveParent_def split: prod.splits sum.splits)
  with ensureGroup_calls [of api "mapKey (category_name pc) []" "category_name pc" None st]
  show ?thesis by simp
qed

lemma resolveGroupId_calls:
  "\<exists>cs. calls (pos (snd (resolveGroupId api catId cats st))) = calls (pos st) @ cs \<and>
        list_all isCreateGroup cs"
proof (cases "falsyId catId \<or> cats (the catId) = None")
  case True
  then show ?thesis by (auto simp: resolveGroupId_def)
next
  case False
  then obtain cat where cat: "\<not> falsyId catId" "cats (the catId) = Some cat" by auto
  obtain pr st1 where p: "resolveParent api cats cat st = (pr, st1)"
    by (cases "resolveParent api cats cat st")
  from resolveParent_calls [of api cats cat st] p
  obtain cs where cs: "calls (pos st1) = calls (pos st) @ cs" "list_all isCreateGroup cs" by auto
  show ?thesis
  proof (cases pr)
    case (Inl err)
    with cat p cs show ?thesis by (simp add: resolveGroupId_def)
  next
    case (Inr pid)
    let ?e = "ensureGroup api (mapKey (category_name cat) pid) (category_name cat)
                (if pid = [] then None else Some pid) st1"
    have "snd (resolveGroupId api catId cats st) = snd ?e"
      using cat p Inr by (simp add: resolveGroupId_def split: prod.splits sum.splits)
    moreover from ensureGroup_calls [of api "mapKey (category_name cat) pid" "category_name cat"
                     "if pid = [] then None else Some pid" st1]
    obtain ds where "calls (pos (snd ?e)) = calls (pos st1) @ ds" "list_all isCreateGroup ds" by blast
    ultimately have "calls (pos (snd (resolveGroupId api catId cats st))) = calls (pos st) @ (cs @ ds)"
      and "list_all isCreateGroup (cs @ ds)"
      using cs by simp_all
    then show ?thesis by blast
  qed
qed

lemma upsertGood_calls:
  "\<exists>cs. calls (pos (upsertGood mul100 env api item code ex gid st)) = calls (pos st) @ cs \<and>
        list_all (\<lambda>c. sentPayload c = Some (toCheckboxGood mul100 env (unit item) (productId item) (isOffer item))) cs"
  by (simp add: upsertGood_def Let_def invoke_def split: option.splits prod.splits sum.splits)

lemma syncUnit_found:
  assumes "truthy (unit_name (unit item))"
    and "deriveCode (unit item) \<noteq> []" and "trim (deriveCode (unit item)) \<noteq> []"
    and "invoke (getGoodByCode api (deriveCode (unit item))) (GetGoodByCode (deriveCode (unit item))) (pos st)
           = (Inr existing, p1)"
    and "resolveGroupId api (categoryId item) cats (st\<lparr>pos := p1\<rparr>) = (res, st2)"
  shows "syncUnit mul100 env api cats item st
           = upsertGood mul100 env api item (deriveCode (unit item)) existing
               (case res of Inl err \<Rightarrow> None | Inr g \<Rightarrow> g) st2"
  using assms by (simp add: syncUnit_def Let_def)

lemma isCreateGroup_sentPayload: "isCreateGroup c \<Longrightarrow> sentPayload c = None"
  by (cases c) simp_all

lemma syncUnit_calls:
  "\<exists>cs. calls (pos (syncUnit mul100 env api cats item st)) = calls (pos st) @ cs \<and>
        list_all (\<lambda>c. sentPayload c = None \<or>
                       sentPayload c = Some (toCheckboxGood mul100 env (unit item) (productId item) (isOffer item))) cs"
proof (cases "truthy (unit_name (unit item)) \<and> deriveCode (unit item) \<noteq> [] \<and> trim (deriveCode (unit item)) \<noteq> []")
  case False
  then have "calls (pos (syncUnit mul100 env api cats item st)) = calls (pos st) @ []"
    by (auto simp: syncUnit_def Let_def)
  then show ?thesis by (intro exI [of _ "[]"]) simp
next
  case True
  let ?code = "deriveCode (unit item)"
  obtain lr p1 where l: "invoke (getGoodByCode api ?code) (GetGoodByCode ?code) (pos st) = (lr, p1)"
    by (cases "invoke (getGoodByCode api ?code) (GetGoodByCode ?code) (pos st)")
  then have c1: "calls p1 = calls (pos st) @ [GetGoodByCode ?code]"
    using calls_invoke [of "getGoodByCode api ?code" "GetGoodByCode ?code" "pos st"] by simp
  show ?thesis
  proof (cases lr)
    case (Inl err)
    with True l have "calls (pos (syncUnit mul100 env api cats item st)) = calls p1"
      by (simp add: syncUnit_def Let_def)
    with c1 show ?thesis by simp
  next
    case (Inr existing)
    obtain res st2 where r: "resolveGroupId api (categoryId item) cats (st\<lparr>pos := p1\<rparr>) = (res, st2)"
      by (cases "resolveGroupId api (categoryId item) cats (st\<lparr>pos := p1\<rparr>)")
    from resolveGroupId_calls [of api "categoryId item" cats "st\<lparr>pos := p1\<rparr>"] r
    obtain cs where cs: "calls (pos st2) = calls p1 @ cs" "list_all isCreateGroup cs" by auto
    let ?g = "case res of Inl err \<Rightarrow> None | Inr g \<Rightarrow> g"
    from True l Inr r have s: "syncUnit mul100 env api cats item st = upsertGood mul100 env api item ?code existing ?g st2"
      by (intro syncUnit_found) simp_all
    from upsertGood_calls [of mul100 env api item ?code existing ?g st2]
    obtain ds where ds: "calls (pos (upsertGood mul100 env api item ?code existing ?g st2)) = calls (pos st2) @ ds"
      "list_all (\<lambda>c. sentPayload c = Some (toCheckboxGood mul100 env (unit item) (productId item) (isOffer item))) ds"
      by blast
    have 1: "calls (pos (syncUnit mul100 env api cats item st)) = calls (pos st) @ ([GetGoodByCode ?code] @ cs @ ds)"
      using s ds(1) cs(1) c1 by simp
    have 2: "list_all (\<lambda>c. sentPayload c = None \<or>
                       sentPayload c = Some (toCheckboxGood mul100 env (unit item) (productId item) (isOffer item)))
               ([GetGoodByCode ?code] @ cs @ ds)"
      using cs(2) ds(2) by (auto simp: list_all_iff dest: isCreateGroup_sentPayload)
    from 1 2 show ?thesis by blast
  qed
qed

lemma loadedCache_calls:
  "\<exists>cs. calls (cache_pos (snd (loadedCache api cst))) = calls (cache_pos cst) @ cs \<and>
        list_all (\<lambda>c. sentPayload c = None) cs"
proof (cases "groupCache cst")
  case None
  obtain r p where i: "invoke (getAllGroups api) GetAllGroups (cache_pos cst) = (r, p)"
    by (cases "invoke (getAllGroups api) GetAllGroups (cache_pos cst)")
  then have "calls p = calls (cache_pos cst) @ [GetAllGroups]"
    using calls_invoke [of "getAllGroups api" GetAllGroups "cache_pos cst"] by simp
  with None i have "calls (cache_pos (snd (loadedCache api cst))) = calls (cache_pos cst) @ [GetAllGroups]"
    by (cases r) (simp_all add: loadedCache_def)
  then show ?thesis by simp
next
  case (Some c)
  then show ?thesis by (simp add: loadedCache_def)
qed

lemma getOrCreateGroup_calls:
  "\<exists>cs. calls (cache_pos (snd (getOrCreateGroup api name parent cst))) = calls (cache_pos cst) @ cs \<and>
        list_all (\<lambda>c. sentPayload c = None) cs"
proof -
  obtain lr c1 where l: "loadedCache api cst = (lr, c1)" by (cases "loadedCache api cst")
  from loadedCache_calls [of api cst] l
  obtain cs where cs: "calls (cache_pos c1) = calls (cache_pos cst) @ cs" "list_all (\<lambda>c. sentPayload c = None) cs"
    by auto
  show ?thesis
  proof (cases lr)
    case (Inl err)
    with l cs show ?thesis by (simp add: getOrCreateGroup_def)
  next
    case (Inr cache)
    show ?thesis
    proof (cases "truthy (cache (cacheKey name parent))")
      case True
      with l Inr cs show ?thesis by (simp add: getOrCreateGroup_def)
    next
      case False
      obtain r p where i: "invoke (createGroup api name parent) (CreateGroup name parent) (cache_pos c1) = (r, p)"
        by (cases "invoke (createGroup api name parent) (CreateGroup name parent) (cache_pos c1)")
      then have "calls p = calls (cache_pos c1) @ [CreateGroup name parent]"
        using calls_invoke [of "createGroup api name parent" "CreateGroup name parent" "cache_pos c1"] by simp
      with l Inr False i cs(1)
      have "calls (cache_pos (snd (getOrCreateGroup api name parent cst)))
              = calls (cache_pos cst) @ (cs @ [CreateGroup name parent])"
        by (cases r) (simp_all add: getOrCreateGroup_def)
      moreover have "list_all (\<lambda>c. sentPayload c = None) (cs @ [CreateGroup name parent])"
        using cs(2) by simp
      ultimately show ?thesis by blast
    qed
  qed
qed

lemma resolveGroupId_early_calls:
  "\<exists>cs. calls (cache_pos (snd (resolveGroupId_early api category cst))) = calls (cache_pos cst) @ cs \<and>
        list_all (\<lambda>c. sentPayload c = None) cs"
proof (cases "category = None \<or> \<not> truthy (ref_name (the category))")
  case True
  then have "snd (resolveGroupId_early api category cst) = cst"
    by (auto simp: resolveGroupId_early_def split: option.splits)
  then show ?thesis by simp
next
  case False
  then obtain cat where cat: "category = Some cat" "truthy (ref_name cat)" by auto
  define pr where "pr = (if truthy (ref_parent_name cat)
                      then (case getOrCreateGroup api (the (ref_parent_name cat)) None cst of
                              (Inl err, c1) \<Rightarrow> (Inl err, c1)
                            | (Inr pid, c1) \<Rightarrow> (Inr (Some pid), c1))
                      else (Inr None, cst))"
  have sp: "snd pr = (if truthy (ref_parent_name cat)
                      then snd (getOrCreateGroup api (the (ref_parent_name cat)) None cst) else cst)"
    by (simp add: pr_def split: prod.splits sum.splits)
  from getOrCreateGroup_calls [of api "the (ref_parent_name cat)" None cst] sp
  obtain cs where cs: "calls (cache_pos (snd pr)) = calls (cache_pos cst) @ cs"
    "list_all (\<lambda>c. sentPayload c = None) cs"
    by (cases "truthy (ref_parent_name cat)") auto
  obtain r c1 where p: "pr = (r, c1)" by (cases pr)
  show ?thesis
  proof (cases r)
    case (Inl err)
    with cat p have "snd (resolveGroupId_early api category cst) = c1"
      by (simp add: resolveGroupId_early_def pr_def [symmetric])
    with cs p show ?thesis by simp
  next
    case (Inr parentId)
    with cat p have "snd (resolveGroupId_early api category cst)
                       = snd (getOrCreateGroup api (the (ref_name cat)) parentId c1)"
      by (simp add: resolveGroupId_early_def pr_def [symmetric] split: prod.splits sum.splits)
    moreover from getOrCreateGroup_calls [of api "the (ref_name cat)" parentId c1]
    obtain ds where "calls (cache_pos (snd (getOrCreateGroup api (the (ref_name cat)) parentId c1)))
                       = calls (cache_pos c1) @ ds" "list_all (\<lambda>c. sentPayload c = None) ds"
      by blast
    ultimately have "calls (cache_pos (snd (resolveGroupId_early api category cst)))
                       = calls (cache_pos cst) @ (cs @ ds)"
      and "list_all (\<lambda>c. sentPayload c = None) (cs @ ds)"
      using cs p by simp_all
    then show ?thesis by blast
  qed
qed

lemma upsertGood_early_calls:
  "\<exists>cs. calls (cache_pos (service (upsertGood_early mul100 env api item code ex gid st)))
          = calls (cache_pos (service st)) @ cs \<and>
        list_all (\<lambda>c. sentPayload c = Some (toCheckboxGood mul100 env (early_unit item) (early_productId item)
                                             (early_isOffer item))) cs"
  by (simp add: upsertGood_early_def Let_def invoke_def split: option.splits prod.splits sum.splits)

lemma syncUnit_early_found:
  assumes "truthy (unit_name (early_unit item))"
    and "deriveCode (early_unit item) \<noteq> []" and "trim (deriveCode (early_unit item)) \<noteq> []"
    and "invoke (getGoodByCode api (deriveCode (early_unit item)))
           (GetGoodByCode (deriveCode (early_unit item))) (cache_pos (service st)) = (Inr existing, p1)"
    and "resolveGroupId_early api (early_category item) ((service st)\<lparr>cache_pos := p1\<rparr>) = (gid, cst2)"
  shows "syncUnit_early mul100 env api item st
           = upsertGood_early mul100 env api item (deriveCode (early_unit item)) existing gid
               (st\<lparr>service := cst2\<rparr>)"
  using assms by (simp add: syncUnit_early_def Let_def)

lemma syncUnit_early_calls:
  "\<exists>cs. calls (cache_pos (service (syncUnit_early mul100 env api item st)))
          = calls (cache_pos (service st)) @ cs \<and>
        list_all (\<lambda>c. sentPayload c = None \<or>
                       sentPayload c = Some (toCheckboxGood mul100 env (early_unit item) (early_productId item)
                                               (early_isOffer item))) cs"
proof (cases "truthy (unit_name (early_unit item)) \<and> deriveCode (early_unit item) \<noteq> [] \<and>
              trim (deriveCode (early_unit item)) \<noteq> []")
  case False
  then have "calls (cache_pos (service (syncUnit_early mul100 env api item st)))
               = calls (cache_pos (service st)) @ []"
    by (auto simp: syncUnit_early_def Let_def)
  then show ?thesis by (intro exI [of _ "[]"]) simp
next
  case True
  let ?code = "deriveCode (early_unit item)"
  let ?p = "toCheckboxGood mul100 env (early_unit item) (early_productId item) (early_isOffer item)"
  obtain lr p1 where l: "invoke (getGoodByCode api ?code) (GetGoodByCode ?code) (cache_pos (service st)) = (lr, p1)"
    by (cases "invoke (getGoodByCode api ?code) (GetGoodByCode ?code) (cache_pos (service st))")
  then have c1: "calls p1 = calls (cache_pos (service st)) @ [GetGoodByCode ?code]"
    using calls_invoke [of "getGoodByCode api ?code" "GetGoodByCode ?code" "cache_pos (service st)"] by simp
  show ?thesis
  proof (cases lr)
    case (Inl err)
    with True l have "calls (cache_pos (service (syncUnit_early mul100 env api item st))) = calls p1"
      by (simp add: syncUnit_early_def Let_def)
    with c1 show ?thesis by simp
  next
    case (Inr existing)
    obtain gid cst2 where r: "resolveGroupId_early api (early_category item) ((service st)\<lparr>cache_pos := p1\<rparr>) = (gid, cst2)"
      by (cases "resolveGroupId_early api (early_category item) ((service st)\<lparr>cache_pos := p1\<rparr>)")
    from resolveGroupId_early_calls [of api "early_category item" "(service st)\<lparr>cache_pos := p1\<rparr>"] r
    obtain cs where cs: "calls (cache_pos cst2) = calls p1 @ cs" "list_all (\<lambda>c. sentPayload c = None) cs"
      by auto
    from True l Inr r
    have s: "syncUnit_early mul100 env api item st
               = upsertGood_early mul100 env api item ?code existing gid (st\<lparr>service := cst2\<rparr>)"
      by (intro syncUnit_early_found) simp_all
    from upsertGood_early_calls [of mul100 env api item ?code existing gid "st\<lparr>service := cst2\<rparr>"]
    obtain ds where ds: "calls (cache_pos (service (upsertGood_early mul100 env api item ?code existing gid
                                                     (st\<lparr>service := cst2\<rparr>))))
                           = calls (cache_pos cst2) @ ds"
      "list_all (\<lambda>c. sentPayload c = Some ?p) ds"
      by auto
    have 1: "calls (cache_pos (service (syncUnit_early mul100 env api item st)))
               = calls (cache_pos (service st)) @ ([GetGoodByCode ?code] @ cs @ ds)"
      using s ds(1) cs(1) c1 by simp
    have 2: "list_all (\<lambda>c. sentPayload c = None \<or> sentPayload c = Some ?p) ([GetGoodByCode ?code] @ cs @ ds)"
      using cs(2) ds(2) by (auto simp: list_all_iff)
    from 1 2 show ?thesis by blast
  qed
qed

text \<open>
  C9. The payload of \<open>toCheckboxGood\<close> has no key but name, code, price, type,
  is_weight, tax_codes, external_id and barcode, so none that names a group; and every
  good that a turn of the reconciler writes, by creation or by update, is the payload
  of the unit, its product id and its offer flag, whatever group was resolved. This
  holds for the turn with the group map and for the turn with the group cache.
\<close>

theorem payload_has_no_group:
  "set (map fst (toCheckboxGood mul100 env u pid off)) \<subseteq> set payloadKeys \<and>
   list_all (\<lambda>k. map_of (toCheckboxGood mul100 env u pid off) k = None) groupKeys \<and>
   (\<exists>cs. calls (pos (syncUnit mul100 env api cats item st)) = calls (pos st) @ cs \<and>
         list_all (\<lambda>c. sentPayload c = None \<or>
                        sentPayload c = Some (toCheckboxGood mul100 env (unit item) (productId item) (isOffer item))) cs) \<and>
   (\<exists>cs. calls (cache_pos (service (syncUnit_early mul100 env api eitem est)))
           = calls (cache_pos (service est)) @ cs \<and>
         list_all (\<lambda>c. sentPayload c = None \<or>
                        sentPayload c = Some (toCheckboxGood mul100 env (early_unit eitem) (early_productId eitem)
                                                (early_isOffer eitem))) cs)"
proof -
  have a: "set (map fst (toCheckboxGood mul100 env u pid off)) \<subseteq> set payloadKeys"
    by (auto simp: toCheckboxGood_def payloadKeys_def)
  have b: "list_all (\<lambda>k. map_of (toCheckboxGood mul100 env u pid off) k = None) groupKeys"
    by (simp add: toCheckboxGood_def groupKeys_def)
  from a b syncUnit_calls [of mul100 env api cats item st] syncUnit_early_calls [of mul100 env api eitem est]
  show ?thesis by blast
qed

lemma showNat_seven: "showNat 7 = ''7''"
  by code_simp

lemma deriveCode_widget: "deriveCode (unit widgetItem) = ''A1''"
  by (simp add: deriveCode_def widgetItem_def truthy_def trim_def isSpace_def)

lemma toCheckboxGood_widget:
  "toCheckboxGood exactMul100 secretEnv (unit widgetItem) 7 False
     = [(''name'', JStr ''Widget''), (''code'', JStr ''A1''), (''price'', JNum 1250),
        (''type'', JStr ''PRODUCT''), (''is_weight'', JBool False), (''tax_codes'', JArr []),
        (''external_id'', JStr ''keycrm_product:7'')]"
  using deriveCode_widget
  by (simp add: toCheckboxGood_def expectedName_def expectedPrice_def mathRound_def exactMul100_def
      orElse_def taxCodes_def secretEnv_def truthy_def showNat_seven widgetItem_def)

lemma syncUnit_widget_calls:
  "calls (pos (syncUnit exactMul100 secretEnv posStore Map.empty widgetItem freshSync))
     = [GetGoodByCode ''A1'', CreateGood (toCheckboxGood exactMul100 secretEnv (unit widgetItem) 7 False)]"
proof -
  have p: "productId widgetItem = 7" "isOffer widgetItem = False" "categoryId widgetItem = Some 1"
    "truthy (unit_name (unit widgetItem))"
    by (simp_all add: widgetItem_def truthy_def)
  have t: "trim ''A1'' \<noteq> []" by (simp add: trim_def isSpace_def)
  have s: "storedFrom (toCheckboxGood exactMul100 secretEnv (unit widgetItem) 7 False) None
             = Some \<lparr>sg_code = ''A1'', sg_name = ''Widget'', sg_price = 1250, sg_barcode = None,
                    sg_group_id = None\<rparr>"
    by (simp add: toCheckboxGood_widget storedFrom_def payloadStr_def payloadNum_def)
  show ?thesis
    by (simp add: syncUnit_def upsertGood_def Let_def invoke_def posStore_def store_getGoodByCode_def
        store_createGood_def freshSync_def emptyPos_def resolveGroupId_def falsyId_def
        deriveCode_widget p t s)
qed

theorem payload_has_no_group_witness:
  "map fst (toCheckboxGood exactMul100 secretEnv (unit widgetItem) 7 False)
     = [''name'', ''code'', ''price'', ''type'', ''is_weight'', ''tax_codes'', ''external_id''] \<and>
   map_of (toCheckboxGood exactMul100 secretEnv (unit widgetItem) 7 False) ''group_id'' = None \<and>
   map sentPayload (calls (pos (syncUnit exactMul100 secretEnv posStore Map.empty widgetItem freshSync)))
     = [None, Some (toCheckboxGood exactMul100 secretEnv (unit widgetItem) 7 False)]"
proof -
  note t = payload_has_no_group [of exactMul100 secretEnv "unit widgetItem" 7 False posStore Map.empty
                                    widgetItem freshSync widgetEarly freshEarly]
  have 1: "map fst (toCheckboxGood exactMul100 secretEnv (unit widgetItem) 7 False)
     = [''name'', ''code'', ''price'', ''type'', ''is_weight'', ''tax_codes'', ''external_id'']"
    by (simp add: toCheckboxGood_widget)
  from t have 2: "map_of (toCheckboxGood exactMul100 secretEnv (unit widgetItem) 7 False) ''group_id'' = None"
    by (simp add: groupKeys_def)
  have 3: "map sentPayload (calls (pos (syncUnit exactMul100 secretEnv posStore Map.empty widgetItem freshSync)))
     = [None, Some (toCheckboxGood exactMul100 secretEnv (unit widgetItem) 7 False)]"
    by (simp add: syncUnit_widget_calls)
  from 1 2 3 show ?thesis by simp
qed

section \<open>Failures of the creation of a good\<close>

lemma syncUnit_create_failure:
  assumes "truthy (unit_name (unit item))"
    and "deriveCode (unit item) \<noteq> []" and "trim (deriveCode (unit item)) \<noteq> []"
    and "invoke (getGoodByCode api (deriveCode (unit item))) (GetGoodByCode (deriveCode (unit item))) (pos st)
           = (Inr None, p1)"
    and "resolveGroupId api (categoryId item) cats (st\<lparr>pos := p1\<rparr>) = (res, st2)"
    and "createGood api (toCheckboxGood mul100 env (unit item) (productId item) (isOffer item)) (world (pos st2))
           = (Inl err, w3)"
  shows "summary (syncUnit mul100 env api cats item st) = onCreateError (deriveCode (unit item)) err (summary st)"
proof -
  let ?code = "deriveCode (unit item)"
  let ?g = "case res of Inl err \<Rightarrow> None | Inr g \<Rightarrow> g"
  have s: "syncUnit mul100 env api cats item st = upsertGood mul100 env api item ?code None ?g st2"
    using assms(1-5) by (rule syncUnit_found)
  have sm: "summary st2 = summary st"
    using resolveGroupId_summary [of api "categoryId item" cats "st\<lparr>pos := p1\<rparr>"] assms(5) by simp
  show ?thesis
    unfolding s using assms(6) sm by (simp add: upsertGood_def Let_def invoke_def)
qed

lemma syncUnit_early_create_failure:
  assumes "truthy (unit_name (early_unit item))"
    and "deriveCode (early_unit item) \<noteq> []" and "trim (deriveCode (early_unit item)) \<noteq> []"
    and "invoke (getGoodByCode api (deriveCode (early_unit item)))
           (GetGoodByCode (deriveCode (early_unit item))) (cache_pos (service st)) = (Inr None, p1)"
    and "resolveGroupId_early api (early_category item) ((service st)\<lparr>cache_pos := p1\<rparr>) = (gid, cst2)"
    and "createGood api (toCheckboxGood mul100 env (early_unit item) (early_productId item) (early_isOffer item))
           (world (cache_pos cst2)) = (Inl err, w3)"
  shows "early_summary (syncUnit_early mul100 env api item st)
           = onCreateError_early (deriveCode (early_unit item)) err (early_summary st)"
proof -
  let ?code = "deriveCode (early_unit item)"
  have s: "syncUnit_early mul100 env api item st
             = upsertGood_early mul100 env api item ?code None gid (st\<lparr>service := cst2\<rparr>)"
    using assms(1-5) by (rule syncUnit_early_found)
  show ?thesis
    unfolding s using assms(6) by (simp add: upsertGood_early_def Let_def invoke_def)
qed

text \<open>
  C6, as amended. For a unit with a name and a code, when the lookup by code finds no
  good and the creation fails. In the turn with the group map: with status 422 the run
  counts one more skipped unit and records no error; with any other failure it
  records one error, with the code, the cause and the body of the answer, and the
  count of skipped units stays. In the turn with the group cache every failure, a 422
  too, records one error and the count of skipped units stays.
\<close>

theorem create_failure_skip_or_error:
  "(truthy (unit_name (unit item)) \<and> deriveCode (unit item) \<noteq> [] \<and> trim (deriveCode (unit item)) \<noteq> [] \<and>
    invoke (getGoodByCode api (deriveCode (unit item))) (GetGoodByCode (deriveCode (unit item))) (pos st)
      = (Inr None, p1) \<and>
    resolveGroupId api (categoryId item) cats (st\<lparr>pos := p1\<rparr>) = (res, st2) \<and>
    createGood api (toCheckboxGood mul100 env (unit item) (productId item) (isOffer item)) (world (pos st2))
      = (Inl err, w3) \<longrightarrow>
      (responseStatus err = Some 422 \<longrightarrow>
         skipped (summary (syncUnit mul100 env api cats item st)) = skipped (summary st) + 1 \<and>
         errors (summary (syncUnit mul100 env api cats item st)) = errors (summary st)) \<and>
      (responseStatus err \<noteq> Some 422 \<longrightarrow>
         skipped (summary (syncUnit mul100 env api cats item st)) = skipped (summary st) \<and>
         errors (summary (syncUnit mul100 env api cats item st))
           = errors (summary st) @
               [\<lparr>error_id = None, error_code = Some (deriveCode (unit item)),
                 error_reason = ''Failed to create '' @ quoted (deriveCode (unit item)) @ '': '' @
                                  createErrorMessage err,
                 error_detail = responseData err\<rparr>]) \<and>
      created (summary (syncUnit mul100 env api cats item st)) = created (summary st) \<and>
      updated (summary (syncUnit mul100 env api cats item st)) = updated (summary st)) \<and>
   (truthy (unit_name (early_unit eitem)) \<and> deriveCode (early_unit eitem) \<noteq> [] \<and>
    trim (deriveCode (early_unit eitem)) \<noteq> [] \<and>
    invoke (getGoodByCode api (deriveCode (early_unit eitem)))
      (GetGoodByCode (deriveCode (early_unit eitem))) (cache_pos (service est)) = (Inr None, q1) \<and>
    resolveGroupId_early api (early_category eitem) ((service est)\<lparr>cache_pos := q1\<rparr>) = (gid, cst2) \<and>
    createGood api (toCheckboxGood mul100 env (early_unit eitem) (early_productId eitem) (early_isOffer eitem))
      (world (cache_pos cst2)) = (Inl err, w3) \<longrightarrow>
      skipped (early_summary (syncUnit_early mul100 env api eitem est)) = skipped (early_summary est) \<and>
      errors (early_summary (syncUnit_early mul100 env api eitem est))
        = errors (early_summary est) @
            [\<lparr>error_id = None, error_code = Some (deriveCode (early_unit eitem)),
              error_reason = ''Failed to create '' @ quoted (deriveCode (early_unit eitem)) @ '': '' @
                               (if truthy (dataMessage err) then the (dataMessage err) else err_message err),
              error_detail = responseData err\<rparr>] \<and>
      created (early_summary (syncUnit_early mul100 env api eitem est)) = created (early_summary est) \<and>
      updated (early_summary (syncUnit_early mul100 env api eitem est)) = updated (early_summary est))"
proof -
  have a: "(responseStatus err = Some 422 \<longrightarrow>
         skipped (summary (syncUnit mul100 env api cats item st)) = skipped (summary st) + 1 \<and>
         errors (summary (syncUnit mul100 env api cats item st)) = errors (summary st)) \<and>
      (responseStatus err \<noteq> Some 422 \<longrightarrow>
         skipped (summary (syncUnit mul100 env api cats item st)) = skipped (summary st) \<and>
         errors (summary (syncUnit mul100 env api cats item st))
           = errors (summary st) @
               [\<lparr>error_id = None, error_code = Some (deriveCode (unit item)),
                 error_reason = ''Failed to create '' @ quoted (deriveCode (unit item)) @ '': '' @
                                  createErrorMessage err,
                 error_detail = responseData err\<rparr>]) \<and>
      created (summary (syncUnit mul100 env api cats item st)) = created (summary st) \<and>
      updated (summary (syncUnit mul100 env api cats item st)) = updated (summary st)"
    if "truthy (unit_name (unit item))" "deriveCode (unit item) \<noteq> []" "trim (deriveCode (unit item)) \<noteq> []"
      "invoke (getGoodByCode api (deriveCode (unit item))) (GetGoodByCode (deriveCode (unit item))) (pos st)
         = (Inr None, p1)"
      "resolveGroupId api (categoryId item) cats (st\<lparr>pos := p1\<rparr>) = (res, st2)"
      "createGood api (toCheckboxGood mul100 env (unit item) (productId item) (isOffer item)) (world (pos st2))
         = (Inl err, w3)"
    unfolding syncUnit_create_failure [OF that] by (simp add: onCreateError_def pushError_def)
  have b: "skipped (early_summary (syncUnit_early mul100 env api eitem est)) = skipped (early_summary est) \<and>
      errors (early_summary (syncUnit_early mul100 env api eitem est))
        = errors (early_summary est) @
            [\<lparr>error_id = None, error_code = Some (deriveCode (early_unit eitem)),
              error_reason = ''Failed to create '' @ quoted (deriveCode (early_unit eitem)) @ '': '' @
                               (if truthy (dataMessage err) then the (dataMessage err) else err_message err),
              error_detail = responseData err\<rparr>] \<and>
      created (early_summary (syncUnit_early mul100 env api eitem est)) = created (early_summary est) \<and>
      updated (early_summary (syncUnit_early mul100 env api eitem est)) = updated (early_summary est)"
    if "truthy (unit_name (early_unit eitem))" "deriveCode (early_unit eitem) \<noteq> []"
      "trim (deriveCode (early_unit eitem)) \<noteq> []"
      "invoke (getGoodByCode api (deriveCode (early_unit eitem)))
         (GetGoodByCode (deriveCode (early_unit eitem))) (cache_pos (service est)) = (Inr None, q1)"
      "resolveGroupId_early api (early_category eitem) ((service est)\<lparr>cache_pos := q1\<rparr>) = (gid, cst2)"
      "createGood api (toCheckboxGood mul100 env (early_unit eitem) (early_productId eitem) (early_isOffer eitem))
         (world (cache_pos cst2)) = (Inl err, w3)"
    unfolding syncUnit_early_create_failure [OF that] by (simp add: onCreateError_early_def pushError_def)
  from a b show ?thesis by blast
qed


lemma syncUnit_early_widget_failing:
  "early_summary (syncUnit_early exactMul100 secretEnv (failingPos err) widgetEarly freshEarly)
     = onCreateError_early ''A1'' err emptySummary"
proof -
  have n: "truthy (unit_name (unit widgetItem))" by (simp add: widgetItem_def truthy_def)
  have t: "trim ''A1'' \<noteq> []" by (simp add: trim_def isSpace_def)
  show ?thesis
    by (simp add: syncUnit_early_def upsertGood_early_def Let_def invoke_def failingPos_def posStore_def
        store_getGoodByCode_def freshEarly_def freshCache_def emptyPos_def resolveGroupId_early_def
        widgetEarly_def deriveCode_widget n t)
qed

theorem create_failure_skip_or_error_witness:
  "skipped (summary (syncUnit exactMul100 secretEnv (failingPos (httpError 422 ''exists'')) Map.empty widgetItem freshSync)) = 1 \<and>
   errors (summary (syncUnit exactMul100 secretEnv (failingPos (httpError 422 ''exists'')) Map.empty widgetItem freshSync)) = [] \<and>
   skipped (summary (syncUnit exactMul100 secretEnv (failingPos (httpError 500 ''boom'')) Map.empty widgetItem freshSync)) = 0 \<and>
   map error_code (errors (summary (syncUnit exactMul100 secretEnv (failingPos (httpError 500 ''boom'')) Map.empty
                                      widgetItem freshSync))) = [Some ''A1''] \<and>
   skipped (early_summary (syncUnit_early exactMul100 secretEnv (failingPos (httpError 500 ''boom'')) widgetEarly
                             freshEarly)) = 0 \<and>
   map error_code (errors (early_summary (syncUnit_early exactMul100 secretEnv (failingPos (httpError 500 ''boom''))
                                            widgetEarly freshEarly))) = [Some ''A1'']"
proof -
  let ?p1 = "\<lparr>world = emptyPos, calls = [GetGoodByCode ''A1'']\<rparr>"
  have n: "truthy (unit_name (unit widgetItem))" "truthy (unit_name (early_unit widgetEarly))"
    by (simp_all add: widgetItem_def widgetEarly_def truthy_def)
  have c: "deriveCode (unit widgetItem) \<noteq> []" "trim (deriveCode (unit widgetItem)) \<noteq> []"
    by (simp_all add: deriveCode_widget trim_def isSpace_def)
  have eu: "early_unit widgetEarly = unit widgetItem" "early_productId widgetEarly = 7"
    "early_isOffer widgetEarly = False"
    by (simp_all add: widgetEarly_def)
  have l: "invoke (getGoodByCode (failingPos err) (deriveCode (unit widgetItem)))
             (GetGoodByCode (deriveCode (unit widgetItem))) (pos freshSync) = (Inr None, ?p1)" for err
    by (simp add: invoke_def failingPos_def posStore_def store_getGoodByCode_def freshSync_def
        emptyPos_def deriveCode_widget)
  have r: "resolveGroupId (failingPos err) (categoryId widgetItem) Map.empty (freshSync\<lparr>pos := ?p1\<rparr>)
           = (Inr None, freshSync\<lparr>pos := ?p1\<rparr>)" for err
    by (simp add: resolveGroupId_def falsyId_def widgetItem_def)
  have f: "createGood (failingPos err) (toCheckboxGood exactMul100 secretEnv (unit widgetItem) (productId widgetItem)
               (isOffer widgetItem)) (world (pos (freshSync\<lparr>pos := ?p1\<rparr>))) = (Inl err, emptyPos)" for err
    by (simp add: failingPos_def)
  have l': "invoke (getGoodByCode (failingPos err) (deriveCode (early_unit widgetEarly)))
             (GetGoodByCode (deriveCode (early_unit widgetEarly))) (cache_pos (service freshEarly))
           = (Inr None, ?p1)" for err
    by (simp add: invoke_def failingPos_def posStore_def store_getGoodByCode_def freshEarly_def freshCache_def
        emptyPos_def deriveCode_widget eu)
  have r': "resolveGroupId_early (failingPos err) (early_category widgetEarly)
              ((service freshEarly)\<lparr>cache_pos := ?p1\<rparr>)
            = (None, (service freshEarly)\<lparr>cache_pos := ?p1\<rparr>)" for err
    by (simp add: resolveGroupId_early_def widgetEarly_def)
  have f': "createGood (failingPos err) (toCheckboxGood exactMul100 secretEnv (early_unit widgetEarly)
               (early_productId widgetEarly) (early_isOffer widgetEarly))
              (world (cache_pos ((service freshEarly)\<lparr>cache_pos := ?p1\<rparr>))) = (Inl err, emptyPos)" for err
    by (simp add: failingPos_def)
  have s1: "responseStatus (httpError 422 ''exists'') = Some 422"
    and s2: "responseStatus (httpError 500 ''boom'') \<noteq> Some 422"
    by (simp_all add: responseStatus_def httpError_def)
  have z: "skipped (summary freshSync) = 0" "errors (summary freshSync) = []"
    "skipped (early_summary freshEarly) = 0" "errors (early_summary freshEarly) = []"
    by (simp_all add: freshSync_def freshEarly_def emptySummary_def)
  note t = create_failure_skip_or_error
             [where item = widgetItem and eitem = widgetEarly and st = freshSync and est = freshEarly
                and cats = Map.empty and ?mul100.0 = exactMul100 and env = secretEnv and ?p1.0 = ?p1
                and ?q1.0 = ?p1 and res = "Inr None" and gid = None
                and ?st2.0 = "freshSync\<lparr>pos := ?p1\<rparr>"
                and ?cst2.0 = "(service freshEarly)\<lparr>cache_pos := ?p1\<rparr>" and ?w3.0 = emptyPos]
  from t [where api = "failingPos (httpError 422 ''exists'')" and err = "httpError 422 ''exists''"]
    n c l r f s1 z
  have 1: "skipped (summary (syncUnit exactMul100 secretEnv (failingPos (httpError 422 ''exists'')) Map.empty widgetItem freshSync)) = 1 \<and>
   errors (summary (syncUnit exactMul100 secretEnv (failingPos (httpError 422 ''exists'')) Map.empty widgetItem freshSync)) = []"
    by simp
  from t [where api = "failingPos (httpError 500 ''boom'')" and err = "httpError 500 ''boom''"]
    n c l r f s2 z
  have 2: "skipped (summary (syncUnit exactMul100 secretEnv (failingPos (httpError 500 ''boom'')) Map.empty widgetItem freshSync)) = 0 \<and>
   map error_code (errors (summary (syncUnit exactMul100 secretEnv (failingPos (httpError 500 ''boom'')) Map.empty
                                      widgetItem freshSync))) = [Some ''A1'']"
    by (simp add: deriveCode_widget)
  have c': "deriveCode (early_unit widgetEarly) \<noteq> []" "trim (deriveCode (early_unit widgetEarly)) \<noteq> []"
    using c by (simp_all add: eu)
  from t [where api = "failingPos (httpError 500 ''boom'')" and err = "httpError 500 ''boom''"]
    n c' l' r' f' z
  have 3: "skipped (early_summary (syncUnit_early exactMul100 secretEnv (failingPos (httpError 500 ''boom'')) widgetEarly
                             freshEarly)) = 0 \<and>
   map error_code (errors (early_summary (syncUnit_early exactMul100 secretEnv (failingPos (httpError 500 ''boom''))
                                            widgetEarly freshEarly))) = [Some ''A1'']"
    by (simp add: deriveCode_widget eu)
  from 1 2 3 show ?thesis by simp
qed

theorem early_conflict_is_error_counterexample:
  "skipped (early_summary (syncUnit_early exactMul100 secretEnv (failingPos (httpError 422 ''exists'')) widgetEarly
                             freshEarly)) = 0 \<and>
   errors (early_summary (syncUnit_early exactMul100 secretEnv (failingPos (httpError 422 ''exists'')) widgetEarly
                            freshEarly))
     = [\<lparr>error_id = None, error_code = Some ''A1'',
         error_reason = ''Failed to create '' @ quoted ''A1'' @ '': exists'',
         error_detail = responseData (httpError 422 ''exists'')\<rparr>]"
  by (simp add: syncUnit_early_widget_failing onCreateError_early_def pushError_def emptySummary_def
      dataMessage_def httpError_def truthy_def responseData_def)

end
